theory Spec2Isabelle
  imports Main "HOL-Library.Sublist" "HOL-Library.Multiset"
begin

section \<open>JavaScript values\<close>

text \<open>
  The server is TypeScript, but every value that crosses a handler is typed \<open>any\<close> at run
  time: a parsed WebSocket frame, \<open>req.body\<close>, the provider's parsed reply, the
  \<open>jsonb\<close> columns. Values are therefore modelled as the run-time sees them. A stored
  record is a plain object: an ordered list of own properties. Numbers are the integers
  (the code only counts and indexes), a \<open>Date\<close> is its epoch-millisecond reading.
\<close>

datatype jsval =
    Undefined
  | JNull
  | JBool bool
  | JNum int
  | JStr string
  | JDate int
  | JArr "jsval list"
  | JObj "(string \<times> jsval) list"

type_synonym obj = "(string \<times> jsval) list"

text \<open>What a \<open>throw\<close> carries: the error class and its \<open>message\<close>.\<close>

datatype exn = Error string | TypeError string | SyntaxError string

fun exn_message :: "exn \<Rightarrow> string" where
  "exn_message (Error m) = m"
| "exn_message (TypeError m) = m"
| "exn_message (SyntaxError m) = m"

text \<open>Truthiness, as \<open>!x\<close>, \<open>x || y\<close> and \<open>x && y\<close> test it.\<close>

fun truthy :: "jsval \<Rightarrow> bool" where
  "truthy Undefined = False"
| "truthy JNull = False"
| "truthy (JBool b) = b"
| "truthy (JNum n) = (n \<noteq> 0)"
| "truthy (JStr s) = (s \<noteq> [])"
| "truthy (JDate t) = True"
| "truthy (JArr xs) = True"
| "truthy (JObj fs) = True"

text \<open>\<open>a || b\<close> on values.\<close>

definition js_or :: "jsval \<Rightarrow> jsval \<Rightarrow> jsval" where
  "js_or a b = (if truthy a then a else b)"

text \<open>
  \<open>a === b\<close>. Primitives compare by type and value. Arrays, objects and dates compare by
  reference; every comparison in this program has one operand fresh from a request (or a
  string), so two of them are never the same reference.
\<close>

fun strict_eq :: "jsval \<Rightarrow> jsval \<Rightarrow> bool" where
  "strict_eq Undefined Undefined = True"
| "strict_eq JNull JNull = True"
| "strict_eq (JBool a) (JBool b) = (a = b)"
| "strict_eq (JNum a) (JNum b) = (a = b)"
| "strict_eq (JStr a) (JStr b) = (a = b)"
| "strict_eq a b = False"

fun primitive :: "jsval \<Rightarrow> bool" where
  "primitive (JDate t) = False"
| "primitive (JArr xs) = False"
| "primitive (JObj fs) = False"
| "primitive v = True"

section \<open>Ordered maps: \<open>Map\<close> and object properties\<close>

text \<open>
  A JavaScript \<open>Map\<close> iterates in insertion order; \<open>set\<close> on a present key replaces the
  value where it stands, on an absent key appends. Own properties of an object behave the
  same way, so both are association lists.
\<close>

definition map_get :: "('k \<times> 'v) list \<Rightarrow> 'k \<Rightarrow> 'v option" where
  "map_get m k = map_of m k"

fun map_set :: "'k \<Rightarrow> 'v \<Rightarrow> ('k \<times> 'v) list \<Rightarrow> ('k \<times> 'v) list" where
  "map_set k v [] = [(k, v)]"
| "map_set k v (p # ps) = (if fst p = k then (k, v) # ps else p # map_set k v ps)"

definition map_delete :: "'k \<Rightarrow> ('k \<times> 'v) list \<Rightarrow> ('k \<times> 'v) list" where
  "map_delete k m = filter (\<lambda>p. fst p \<noteq> k) m"

definition map_keys :: "('k \<times> 'v) list \<Rightarrow> 'k list" where
  "map_keys m = map fst m"

definition map_values :: "('k \<times> 'v) list \<Rightarrow> 'v list" where
  "map_values m = map snd m"

text \<open>\<open>o.k\<close> on an object: the own property, or \<open>undefined\<close>.\<close>

definition get_prop :: "obj \<Rightarrow> string \<Rightarrow> jsval" where
  "get_prop ob k = (case map_get ob k of None \<Rightarrow> Undefined | Some v \<Rightarrow> v)"

text \<open>\<open>x?.k\<close> where \<open>x\<close> is a record or \<open>undefined\<close>.\<close>

definition opt_prop :: "obj option \<Rightarrow> string \<Rightarrow> jsval" where
  "opt_prop x k = (case x of None \<Rightarrow> Undefined | Some ob \<Rightarrow> get_prop ob k)"

text \<open>
  \<open>{...a, ...b}\<close>: the properties of \<open>a\<close>, each property of \<open>b\<close> written over them in
  turn. An object literal \<open>{...a, k: v}\<close> is \<open>spread a [(k, v)]\<close>.
\<close>

definition spread :: "obj \<Rightarrow> obj \<Rightarrow> obj" where
  "spread a b = fold (\<lambda>p acc. map_set (fst p) (snd p) acc) b a"

section \<open>The record store (\<open>server/storage.ts\<close>, class \<open>MemStorage\<close>)\<close>

text \<open>
  One \<open>Map\<close> per entity, keyed by identifier. \<open>randomUUID()\<close> and \<open>new Date()\<close> are
  inputs of the operations that call them (\<open>uuid\<close>, \<open>now\<close>). A method that can throw
  returns a sum, the error on the left. The field \<open>notes\<close> of the class is \<open>notesMap\<close>
  here, and a parameter \<open>id\<close> is \<open>id'\<close>: both names are taken in Isabelle.
\<close>

record store =
  users :: "(string \<times> obj) list"
  conversations :: "(string \<times> obj) list"
  messages :: "(string \<times> obj) list"
  flashcardSets :: "(string \<times> obj) list"
  flashcards :: "(string \<times> obj) list"
  notesMap :: "(string \<times> obj) list"
  quizzes :: "(string \<times> obj) list"
  quizAttempts :: "(string \<times> obj) list"
  videoGenerations :: "(string \<times> obj) list"

definition MemStorage :: "int \<Rightarrow> store" where
  "MemStorage now =
     \<lparr>users = [(''default-user'',
         [(''id'', JStr ''default-user''), (''username'', JStr ''demo''),
          (''password'', JStr ''demo''), (''email'', JStr ''demo@nexusai.com''),
          (''avatar'', JNull), (''createdAt'', JDate now)])],
      conversations = [], messages = [], flashcardSets = [], flashcards = [],
      notesMap = [], quizzes = [], quizAttempts = [], videoGenerations = []\<rparr>"

subsection \<open>Users\<close>

definition createUser :: "string \<Rightarrow> int \<Rightarrow> obj \<Rightarrow> store \<Rightarrow> store \<times> obj" where
  "createUser uuid now insertUser s =
     (let user = spread insertUser [(''id'', JStr uuid), (''createdAt'', JDate now)]
      in (s\<lparr>users := map_set uuid user (users s)\<rparr>, user))"

subsection \<open>Conversations and messages\<close>

definition getConversation :: "string \<Rightarrow> store \<Rightarrow> obj option" where
  "getConversation id' s = map_get (conversations s) id'"

definition createConversation :: "string \<Rightarrow> int \<Rightarrow> obj \<Rightarrow> store \<Rightarrow> store \<times> obj" where
  "createConversation uuid now insertConversation s =
     (let conversation = spread insertConversation
            [(''id'', JStr uuid), (''createdAt'', JDate now), (''updatedAt'', JDate now)]
      in (s\<lparr>conversations := map_set uuid conversation (conversations s)\<rparr>, conversation))"

definition updateConversation :: "int \<Rightarrow> string \<Rightarrow> obj \<Rightarrow> store \<Rightarrow> exn + store \<times> obj" where
  "updateConversation now id' updates s =
     (case map_get (conversations s) id' of
        None \<Rightarrow> Inl (Error ''Conversation not found'')
      | Some existing \<Rightarrow>
          (let updated = spread (spread existing updates) [(''updatedAt'', JDate now)]
           in Inr (s\<lparr>conversations := map_set id' updated (conversations s)\<rparr>, updated)))"

definition deleteConversation :: "string \<Rightarrow> store \<Rightarrow> store" where
  "deleteConversation id' s =
     (let s1 = s\<lparr>conversations := map_delete id' (conversations s)\<rparr>
      in s1\<lparr>messages :=
           fold (\<lambda>key ms.
                   if strict_eq (opt_prop (map_get ms key) ''conversationId'') (JStr id')
                   then map_delete key ms else ms)
                (map_keys (messages s1)) (messages s1)\<rparr>)"

definition createMessage :: "string \<Rightarrow> int \<Rightarrow> obj \<Rightarrow> store \<Rightarrow> store \<times> obj" where
  "createMessage uuid now insertMessage s =
     (let message = spread insertMessage [(''id'', JStr uuid), (''createdAt'', JDate now)]
      in (s\<lparr>messages := map_set uuid message (messages s)\<rparr>, message))"

subsection \<open>Flashcard sets and flashcards\<close>

definition getFlashcardSet :: "string \<Rightarrow> store \<Rightarrow> obj option" where
  "getFlashcardSet id' s = map_get (flashcardSets s) id'"

definition createFlashcardSet :: "string \<Rightarrow> int \<Rightarrow> obj \<Rightarrow> store \<Rightarrow> store \<times> obj" where
  "createFlashcardSet uuid now insertSet s =
     (let set' = spread insertSet
            [(''id'', JStr uuid), (''createdAt'', JDate now), (''updatedAt'', JDate now)]
      in (s\<lparr>flashcardSets := map_set uuid set' (flashcardSets s)\<rparr>, set'))"

definition updateFlashcardSet :: "int \<Rightarrow> string \<Rightarrow> obj \<Rightarrow> store \<Rightarrow> exn + store \<times> obj" where
  "updateFlashcardSet now id' updates s =
     (case map_get (flashcardSets s) id' of
        None \<Rightarrow> Inl (Error ''Flashcard set not found'')
      | Some existing \<Rightarrow>
          (let updated = spread (spread existing updates) [(''updatedAt'', JDate now)]
           in Inr (s\<lparr>flashcardSets := map_set id' updated (flashcardSets s)\<rparr>, updated)))"

definition deleteFlashcardSet :: "string \<Rightarrow> store \<Rightarrow> store" where
  "deleteFlashcardSet id' s =
     (let s1 = s\<lparr>flashcardSets := map_delete id' (flashcardSets s)\<rparr>
      in s1\<lparr>flashcards :=
           fold (\<lambda>key cs.
                   if strict_eq (opt_prop (map_get cs key) ''setId'') (JStr id')
                   then map_delete key cs else cs)
                (map_keys (flashcards s1)) (flashcards s1)\<rparr>)"

definition createFlashcard :: "string \<Rightarrow> int \<Rightarrow> obj \<Rightarrow> store \<Rightarrow> store \<times> obj" where
  "createFlashcard uuid now insertCard s =
     (let card = spread insertCard
            [(''id'', JStr uuid),
             (''difficulty'', js_or (get_prop insertCard ''difficulty'') (JNum 1)),
             (''reviewCount'', JNum 0), (''masteryLevel'', JNum 0),
             (''lastReviewed'', JNull), (''createdAt'', JDate now)]
      in (s\<lparr>flashcards := map_set uuid card (flashcards s)\<rparr>, card))"

definition updateFlashcard :: "string \<Rightarrow> obj \<Rightarrow> store \<Rightarrow> exn + store \<times> obj" where
  "updateFlashcard id' updates s =
     (case map_get (flashcards s) id' of
        None \<Rightarrow> Inl (Error ''Flashcard not found'')
      | Some existing \<Rightarrow>
          (let updated = spread existing updates
           in Inr (s\<lparr>flashcards := map_set id' updated (flashcards s)\<rparr>, updated)))"

definition deleteFlashcard :: "string \<Rightarrow> store \<Rightarrow> store" where
  "deleteFlashcard id' s = s\<lparr>flashcards := map_delete id' (flashcards s)\<rparr>"

subsection \<open>Notes\<close>

definition getNote :: "string \<Rightarrow> store \<Rightarrow> obj option" where
  "getNote id' s = map_get (notesMap s) id'"

definition createNote :: "string \<Rightarrow> int \<Rightarrow> obj \<Rightarrow> store \<Rightarrow> store \<times> obj" where
  "createNote uuid now insertNote s =
     (let note' = spread insertNote
            [(''id'', JStr uuid), (''createdAt'', JDate now), (''updatedAt'', JDate now)]
      in (s\<lparr>notesMap := map_set uuid note' (notesMap s)\<rparr>, note'))"

definition updateNote :: "int \<Rightarrow> string \<Rightarrow> obj \<Rightarrow> store \<Rightarrow> exn + store \<times> obj" where
  "updateNote now id' updates s =
     (case map_get (notesMap s) id' of
        None \<Rightarrow> Inl (Error ''Note not found'')
      | Some existing \<Rightarrow>
          (let updated = spread (spread existing updates) [(''updatedAt'', JDate now)]
           in Inr (s\<lparr>notesMap := map_set id' updated (notesMap s)\<rparr>, updated)))"

definition deleteNote :: "string \<Rightarrow> store \<Rightarrow> store" where
  "deleteNote id' s = s\<lparr>notesMap := map_delete id' (notesMap s)\<rparr>"

subsection \<open>Quizzes and attempts\<close>

definition getQuiz :: "string \<Rightarrow> store \<Rightarrow> obj option" where
  "getQuiz id' s = map_get (quizzes s) id'"

definition createQuiz :: "string \<Rightarrow> int \<Rightarrow> obj \<Rightarrow> store \<Rightarrow> store \<times> obj" where
  "createQuiz uuid now insertQuiz s =
     (let quiz = spread insertQuiz [(''id'', JStr uuid), (''createdAt'', JDate now)]
      in (s\<lparr>quizzes := map_set uuid quiz (quizzes s)\<rparr>, quiz))"

definition deleteQuiz :: "string \<Rightarrow> store \<Rightarrow> store" where
  "deleteQuiz id' s =
     (let s1 = s\<lparr>quizzes := map_delete id' (quizzes s)\<rparr>
      in s1\<lparr>quizAttempts :=
           fold (\<lambda>key as.
                   if strict_eq (opt_prop (map_get as key) ''quizId'') (JStr id')
                   then map_delete key as else as)
                (map_keys (quizAttempts s1)) (quizAttempts s1)\<rparr>)"

definition createQuizAttempt :: "string \<Rightarrow> int \<Rightarrow> obj \<Rightarrow> store \<Rightarrow> store \<times> obj" where
  "createQuizAttempt uuid now insertAttempt s =
     (let attempt = spread insertAttempt [(''id'', JStr uuid), (''completedAt'', JDate now)]
      in (s\<lparr>quizAttempts := map_set uuid attempt (quizAttempts s)\<rparr>, attempt))"

subsection \<open>Video generations\<close>

definition getVideoGeneration :: "string \<Rightarrow> store \<Rightarrow> obj option" where
  "getVideoGeneration id' s = map_get (videoGenerations s) id'"

definition createVideoGeneration :: "string \<Rightarrow> int \<Rightarrow> obj \<Rightarrow> store \<Rightarrow> store \<times> obj" where
  "createVideoGeneration uuid now insertVideo s =
     (let video = spread insertVideo
            [(''id'', JStr uuid), (''status'', JStr ''pending''), (''videoUrl'', JNull),
             (''thumbnailUrl'', JNull), (''completedAt'', JNull), (''createdAt'', JDate now)]
      in (s\<lparr>videoGenerations := map_set uuid video (videoGenerations s)\<rparr>, video))"

definition updateVideoGeneration :: "string \<Rightarrow> obj \<Rightarrow> store \<Rightarrow> exn + store \<times> obj" where
  "updateVideoGeneration id' updates s =
     (case map_get (videoGenerations s) id' of
        None \<Rightarrow> Inl (Error ''Video generation not found'')
      | Some existing \<Rightarrow>
          (let updated = spread existing updates
           in Inr (s\<lparr>videoGenerations := map_set id' updated (videoGenerations s)\<rparr>, updated)))"

subsection \<open>Listing by owner\<close>

text \<open>
  \<open>x.getTime()\<close>: a \<open>Date\<close> answers; on \<open>null\<close>, \<open>undefined\<close> or anything that is not a
  \<open>Date\<close> the call throws a \<open>TypeError\<close> (the non-null assertion \<open>!\<close> is erased at compile
  time). The routes discard the error's text, so the text here is only a label.
\<close>

definition getTime :: "jsval \<Rightarrow> exn + int" where
  "getTime v = (case v of JDate t \<Rightarrow> Inr t | _ \<Rightarrow> Inl (TypeError ''getTime''))"

text \<open>The comparator \<open>(a, b) => (b.updatedAt || b.createdAt)!.getTime() -
  (a.updatedAt || a.createdAt)!.getTime()\<close>; the left operand is evaluated first.\<close>

definition recent :: "obj \<Rightarrow> exn + int" where
  "recent x = getTime (js_or (get_prop x ''updatedAt'') (get_prop x ''createdAt''))"

definition by_recent_desc :: "obj \<Rightarrow> obj \<Rightarrow> exn + int" where
  "by_recent_desc a b =
     (case recent b of
        Inl e \<Rightarrow> Inl e
      | Inr tb \<Rightarrow> (case recent a of Inl e \<Rightarrow> Inl e | Inr ta \<Rightarrow> Inr (tb - ta)))"

text \<open>The comparator \<open>(a, b) => b.createdAt!.getTime() - a.createdAt!.getTime()\<close>.\<close>

definition created :: "obj \<Rightarrow> exn + int" where
  "created x = getTime (get_prop x ''createdAt'')"

definition by_created_desc :: "obj \<Rightarrow> obj \<Rightarrow> exn + int" where
  "by_created_desc a b =
     (case created b of
        Inl e \<Rightarrow> Inl e
      | Inr tb \<Rightarrow> (case created a of Inl e \<Rightarrow> Inl e | Inr ta \<Rightarrow> Inr (tb - ta)))"

text \<open>
  \<open>Array.prototype.sort(cmp)\<close> is a stable sort: \<open>a\<close> stays before \<open>b\<close> unless
  \<open>cmp(a, b) > 0\<close>. For a comparator that orders by a key the result of a stable sort is
  determined, so any stable algorithm stands for the engine's; this one inserts from the
  right. A comparator that throws ends the sort with its error, and a list of fewer than
  two elements is returned without a call of the comparator.
\<close>

fun insert_by :: "('a \<Rightarrow> 'a \<Rightarrow> exn + int) \<Rightarrow> 'a \<Rightarrow> 'a list \<Rightarrow> exn + 'a list" where
  "insert_by cmp x [] = Inr [x]"
| "insert_by cmp x (y # ys) =
     (case cmp x y of
        Inl e \<Rightarrow> Inl e
      | Inr d \<Rightarrow>
          if d \<le> 0 then Inr (x # y # ys)
          else (case insert_by cmp x ys of Inl e \<Rightarrow> Inl e | Inr zs \<Rightarrow> Inr (y # zs)))"

fun array_sort :: "('a \<Rightarrow> 'a \<Rightarrow> exn + int) \<Rightarrow> 'a list \<Rightarrow> exn + 'a list" where
  "array_sort cmp [] = Inr []"
| "array_sort cmp (x # xs) =
     (case array_sort cmp xs of Inl e \<Rightarrow> Inl e | Inr ys \<Rightarrow> insert_by cmp x ys)"

definition getUserConversations :: "string \<Rightarrow> store \<Rightarrow> exn + obj list" where
  "getUserConversations userId s =
     array_sort by_recent_desc
       (filter (\<lambda>conv. strict_eq (get_prop conv ''userId'') (JStr userId))
          (map_values (conversations s)))"

definition getUserFlashcardSets :: "string \<Rightarrow> store \<Rightarrow> exn + obj list" where
  "getUserFlashcardSets userId s =
     array_sort by_recent_desc
       (filter (\<lambda>set'. strict_eq (get_prop set' ''userId'') (JStr userId))
          (map_values (flashcardSets s)))"

definition getUserNotes :: "string \<Rightarrow> store \<Rightarrow> exn + obj list" where
  "getUserNotes userId s =
     array_sort by_recent_desc
       (filter (\<lambda>note'. strict_eq (get_prop note' ''userId'') (JStr userId))
          (map_values (notesMap s)))"

definition getUserQuizzes :: "string \<Rightarrow> store \<Rightarrow> exn + obj list" where
  "getUserQuizzes userId s =
     array_sort by_created_desc
       (filter (\<lambda>quiz. strict_eq (get_prop quiz ''userId'') (JStr userId))
          (map_values (quizzes s)))"

subsection \<open>Every mutation the store offers\<close>

text \<open>
  The handlers reach the maps only through the methods above. One step of the store is
  one call of a mutating method that returns normally.
\<close>

inductive store_step :: "store \<Rightarrow> store \<Rightarrow> bool" where
  step_createUser: "store_step s (fst (createUser uuid now ins s))"
| step_createConversation: "store_step s (fst (createConversation uuid now ins s))"
| step_updateConversation:
    "updateConversation now i upd s = Inr (s', r) \<Longrightarrow> store_step s s'"
| step_deleteConversation: "store_step s (deleteConversation i s)"
| step_createMessage: "store_step s (fst (createMessage uuid now ins s))"
| step_createFlashcardSet: "store_step s (fst (createFlashcardSet uuid now ins s))"
| step_updateFlashcardSet:
    "updateFlashcardSet now i upd s = Inr (s', r) \<Longrightarrow> store_step s s'"
| step_deleteFlashcardSet: "store_step s (deleteFlashcardSet i s)"
| step_createFlashcard: "store_step s (fst (createFlashcard uuid now ins s))"
| step_updateFlashcard: "updateFlashcard i upd s = Inr (s', r) \<Longrightarrow> store_step s s'"
| step_deleteFlashcard: "store_step s (deleteFlashcard i s)"
| step_createNote: "store_step s (fst (createNote uuid now ins s))"
| step_updateNote: "updateNote now i upd s = Inr (s', r) \<Longrightarrow> store_step s s'"
| step_deleteNote: "store_step s (deleteNote i s)"
| step_createQuiz: "store_step s (fst (createQuiz uuid now ins s))"
| step_deleteQuiz: "store_step s (deleteQuiz i s)"
| step_createQuizAttempt: "store_step s (fst (createQuizAttempt uuid now ins s))"
| step_createVideoGeneration: "store_step s (fst (createVideoGeneration uuid now ins s))"
| step_updateVideoGeneration:
    "updateVideoGeneration i upd s = Inr (s', r) \<Longrightarrow> store_step s s'"

section \<open>Reading properties of arbitrary values\<close>

text \<open>
  \<open>v.k\<close> for a value of unknown shape and one of the property names the handlers use
  (none is an index or a prototype member): \<open>null\<close> and \<open>undefined\<close> throw, an object
  gives its own property, arrays and strings know \<open>length\<close>, everything else
  is \<open>undefined\<close>.
\<close>

definition js_member :: "jsval \<Rightarrow> string \<Rightarrow> exn + jsval" where
  "js_member v k =
     (case v of
        Undefined \<Rightarrow> Inl (TypeError ''Cannot read properties of undefined'')
      | JNull \<Rightarrow> Inl (TypeError ''Cannot read properties of null'')
      | JObj fs \<Rightarrow> Inr (get_prop fs k)
      | JArr xs \<Rightarrow> Inr (if k = ''length'' then JNum (int (length xs)) else Undefined)
      | JStr s \<Rightarrow> Inr (if k = ''length'' then JNum (int (length s)) else Undefined)
      | _ \<Rightarrow> Inr Undefined)"

text \<open>Decimal digits of an index, for \<open>o[i]\<close> on a plain object.\<close>

fun show_nat :: "nat \<Rightarrow> string" where
  "show_nat n =
     (if n < 10 then [''0123456789'' ! n]
      else show_nat (n div 10) @ [''0123456789'' ! (n mod 10)])"

text \<open>\<open>v[i]\<close> for a number \<open>i\<close>.\<close>

definition js_index :: "jsval \<Rightarrow> nat \<Rightarrow> exn + jsval" where
  "js_index v i =
     (case v of
        Undefined \<Rightarrow> Inl (TypeError ''Cannot read properties of undefined'')
      | JNull \<Rightarrow> Inl (TypeError ''Cannot read properties of null'')
      | JArr xs \<Rightarrow> Inr (if i < length xs then xs ! i else Undefined)
      | JStr s \<Rightarrow> Inr (if i < length s then JStr [s ! i] else Undefined)
      | JObj fs \<Rightarrow> Inr (get_prop fs (show_nat i))
      | _ \<Rightarrow> Inr Undefined)"

text \<open>The own enumerable properties \<open>{...v}\<close> copies.\<close>

definition own_props :: "jsval \<Rightarrow> obj" where
  "own_props v =
     (case v of
        JObj fs \<Rightarrow> fs
      | JArr xs \<Rightarrow> zip (map show_nat [0..<length xs]) xs
      | JStr s \<Rightarrow> zip (map show_nat [0..<length s]) (map (\<lambda>c. JStr [c]) s)
      | _ \<Rightarrow> [])"

text \<open>A destructuring default, \<open>const { k = dflt } = o\<close>: it replaces \<open>undefined\<close> only.\<close>

definition default_to :: "jsval \<Rightarrow> jsval \<Rightarrow> jsval" where
  "default_to v dflt = (if v = Undefined then dflt else v)"

text \<open>\<open>text || dflt\<close> for a reply text typed \<open>string | null\<close>.\<close>

definition str_or :: "string option \<Rightarrow> string \<Rightarrow> string" where
  "str_or text' dflt = (case text' of None \<Rightarrow> dflt | Some t \<Rightarrow> if t = [] then dflt else t)"

subsection \<open>Conversion to text\<close>

text \<open>
  \<open>String(v)\<close>, which a template literal \<open>${v}\<close> and \<open>Array.prototype.join\<close> apply.
  A primitive always converts. An object converts through its \<open>toString\<close> method: a
  plain object inherits one, unless it has an own property of that name, and an own
  property of parsed JSON is never callable; \<open>valueOf\<close> then cannot help either (it is not
  callable, or it returns the object), so the conversion throws a \<open>TypeError\<close>. An array
  converts by joining its elements, and fails where one of them does.
\<close>

fun convertible :: "jsval \<Rightarrow> bool" where
  "convertible (JObj fs) = (map_of fs ''toString'' = None)"
| "convertible (JArr xs) = (\<forall>x \<in> set xs. convertible x)"
| "convertible v = True"

text \<open>The decimal digits of an integer, which is its text below \<open>1e21\<close>.\<close>

definition show_int :: "int \<Rightarrow> string" where
  "show_int n = (if n < 0 then ''-'' @ show_nat (nat (- n)) else show_nat (nat n))"

fun join_with :: "string \<Rightarrow> string list \<Rightarrow> string" where
  "join_with sep [] = []"
| "join_with sep [x] = x"
| "join_with sep (x # y # ys) = x @ sep @ join_with sep (y # ys)"

text \<open>
  The text of a value that converts. The text of a \<open>Date\<close> depends on the time zone, and a
  number from \<open>1e21\<close> on is written with an exponent: both are left to the parameter \<open>d\<close>.
  In a join, \<open>null\<close> and \<open>undefined\<close> elements give the empty text.
\<close>

fun to_text :: "(jsval \<Rightarrow> string) \<Rightarrow> jsval \<Rightarrow> string" where
  "to_text d Undefined = ''undefined''"
| "to_text d JNull = ''null''"
| "to_text d (JBool b) = (if b then ''true'' else ''false'')"
| "to_text d (JNum n) = (if \<bar>n\<bar> < 10 ^ 21 then show_int n else d (JNum n))"
| "to_text d (JStr s) = s"
| "to_text d (JDate t) = d (JDate t)"
| "to_text d (JArr xs) =
     join_with '',''
       (map (\<lambda>x. if x = Undefined \<or> x = JNull then [] else to_text d x) xs)"
| "to_text d (JObj fs) = ''[object Object]''"

definition nl :: string where
  "nl = [CHR 0x0A]"

section \<open>The routes (\<open>registerRoutes\<close>)\<close>

text \<open>
  What the server cannot decide by itself is an input of the model: the identifiers and
  clock readings the next two \<open>create\<close> calls draw, \<open>JSON.parse\<close>, the validation schema
  (\<open>zod\<close>), the text of a \<open>Date\<close> and of a very large number (\<open>ToString\<close>), and the outcome of each provider call. A
  provider outcome is either the error the awaited call (or the read of the reply text,
  \<open>response.choices[0].message.content\<close> and \<open>response.content[0].text\<close>) throws, or
  the reply text, which the SDK types as \<open>string | null\<close>. The prompt a handler builds
  goes to the provider and nowhere else; building it can throw, so it is built here too.

  A handler is modelled from its first statement to its last with no other request in
  between; in the server another request can run at each \<open>await\<close>. Where a claim spans
  such a gap (the video timer) the statement lets the store change in between.
\<close>

datatype provider = OpenAI | Anthropic

record world =
  JSON_parse :: "string \<Rightarrow> exn + jsval"
  zod_parse :: "obj \<Rightarrow> exn + obj"
  ToString :: "jsval \<Rightarrow> string"
  uuid1 :: string
  now1 :: int
  uuid2 :: string
  now2 :: int
  openai_reply :: "exn + string option"
  anthropic_reply :: "exn + string option"
  startsWith_error :: "jsval \<Rightarrow> string"

definition DEFAULT_OPENAI_MODEL :: string where
  "DEFAULT_OPENAI_MODEL = ''gpt-5''"

definition DEFAULT_ANTHROPIC_MODEL :: string where
  "DEFAULT_ANTHROPIC_MODEL = ''claude-sonnet-4-20250514''"

definition DEFAULT_USER_ID :: string where
  "DEFAULT_USER_ID = ''default-user''"

text \<open>An HTTP response: the status and the JSON body.\<close>

type_synonym response = "nat \<times> jsval"

definition message_body :: "string \<Rightarrow> jsval" where
  "message_body m = JObj [(''message'', JStr m)]"

text \<open>\<open>${v}\<close>: the text of \<open>v\<close>, or the \<open>TypeError\<close> of a value that does not convert.\<close>

definition js_String :: "world \<Rightarrow> jsval \<Rightarrow> exn + string" where
  "js_String w v =
     (if convertible v then Inr (to_text (ToString w) v)
      else Inl (TypeError ''Cannot convert object to primitive value''))"

text \<open>\<open>v.join(sep)\<close>: only an array has the method.\<close>

definition array_join :: "world \<Rightarrow> jsval \<Rightarrow> string \<Rightarrow> exn + string" where
  "array_join w v sep =
     (case v of
        JArr xs \<Rightarrow>
          if \<forall>x \<in> set xs. convertible x
          then Inr (join_with sep
                 (map (\<lambda>x. if x = Undefined \<or> x = JNull then []
                           else to_text (ToString w) x) xs))
          else Inl (TypeError ''Cannot convert object to primitive value'')
      | _ \<Rightarrow> Inl (TypeError ''join is not a function''))"

subsection \<open>The chat relay: \<open>ws.on('message')\<close>\<close>

text \<open>
  The state one frame can touch: the store, the frames sent on this socket (as the objects
  handed to \<open>JSON.stringify\<close>, oldest first) and the provider calls made (the provider
  and the request object).
\<close>

record relay =
  storage :: store
  sent :: "jsval list"
  calls :: "(provider \<times> jsval) list"

definition typing_frame :: "bool \<Rightarrow> jsval" where
  "typing_frame b = JObj [(''type'', JStr ''typing''), (''isTyping'', JBool b)]"

definition message_frame :: "obj \<Rightarrow> jsval" where
  "message_frame savedMessage = JObj [(''type'', JStr ''message''), (''message'', JObj savedMessage)]"

definition error_frame :: "exn \<Rightarrow> jsval" where
  "error_frame e =
     JObj [(''type'', JStr ''error''),
           (''message'', JStr (''Failed to get AI response: '' @ exn_message e))]"

definition openai_request :: "jsval \<Rightarrow> jsval" where
  "openai_request content =
     JObj [(''model'', JStr DEFAULT_OPENAI_MODEL),
           (''messages'', JArr [JObj [(''role'', JStr ''user''), (''content'', content)]])]"

definition anthropic_request :: "jsval \<Rightarrow> jsval" where
  "anthropic_request content =
     JObj [(''model'', JStr DEFAULT_ANTHROPIC_MODEL), (''max_tokens'', JNum 1024),
           (''messages'', JArr [JObj [(''role'', JStr ''user''), (''content'', content)]])]"

text \<open>
  The body of the inner \<open>try\<close> up to the value of \<open>aiResponse\<close>: the calls it makes and
  either the error thrown or the reply. \<open>model.startsWith\<close> exists on strings only.
\<close>

definition ai_response :: "world \<Rightarrow> jsval \<Rightarrow> jsval \<Rightarrow> (provider \<times> jsval) list \<times> (exn + string)" where
  "ai_response w model content =
     (case model of
        JStr m \<Rightarrow>
          if prefix ''gpt'' m then
            ([(OpenAI, openai_request content)],
             (case openai_reply w of
                Inl e \<Rightarrow> Inl e
              | Inr text' \<Rightarrow> Inr (str_or text' ''Sorry, I couldn't generate a response.'')))
          else if prefix ''claude'' m then
            ([(Anthropic, anthropic_request content)],
             (case anthropic_reply w of
                Inl e \<Rightarrow> Inl e
              | Inr text' \<Rightarrow> Inr (str_or text' ''Sorry, I couldn't generate a response.'')))
          else ([], Inr ''Model not supported'')
      | _ \<Rightarrow> ([], Inl (TypeError (startsWith_error w model))))"

text \<open>The \<open>chat_message\<close> branch, entered with the parsed frame (an object).\<close>

definition chat_message :: "world \<Rightarrow> obj \<Rightarrow> relay \<Rightarrow> relay" where
  "chat_message w message r =
     (let conversationId = get_prop message ''conversationId'';
          content = get_prop message ''content'';
          model = get_prop message ''model'';
          s1 = fst (createMessage (uuid1 w) (now1 w)
                 [(''conversationId'', conversationId), (''role'', JStr ''user''),
                  (''content'', content), (''attachments'', JNull)] (storage r));
          r1 = r\<lparr>storage := s1, sent := sent r @ [typing_frame True]\<rparr>;
          (called, outcome) = ai_response w model content;
          r2 = r1\<lparr>calls := calls r1 @ called\<rparr>
      in case outcome of
           Inl e \<Rightarrow> r2\<lparr>sent := sent r2 @ [error_frame e]\<rparr>
         | Inr aiResponse \<Rightarrow>
             (let (s2, savedMessage) = createMessage (uuid2 w) (now2 w)
                    [(''conversationId'', conversationId), (''role'', JStr ''assistant''),
                     (''content'', JStr aiResponse), (''attachments'', JNull)] (storage r2)
              in r2\<lparr>storage := s2,
                    sent := sent r2 @ [typing_frame False, message_frame savedMessage]\<rparr>))"

text \<open>
  The handler. The outer \<open>catch\<close> only logs: a frame that does not parse, and a parsed
  \<open>null\<close> (whose \<open>.type\<close> throws), leave the state as it was. Only an object has an own
  \<open>type\<close>.
\<close>

definition ws_on_message :: "world \<Rightarrow> string \<Rightarrow> relay \<Rightarrow> relay" where
  "ws_on_message w data r =
     (case JSON_parse w data of
        Inl e \<Rightarrow> r
      | Inr message \<Rightarrow>
          (case js_member message ''type'' of
             Inl e \<Rightarrow> r
           | Inr t \<Rightarrow>
               if strict_eq t (JStr ''chat_message'')
               then chat_message w (own_props message) r
               else r))"

subsection \<open>\<open>POST /api/flashcards/generate\<close>\<close>

text \<open>
  Every handler body is one \<open>try\<close>; whatever is thrown inside becomes the handler's fixed
  error response. Destructuring \<open>req.body\<close> throws when no body was parsed.
\<close>

text \<open>
  The prompt: \<open>count\<close> and \<open>content\<close> are converted in this order. \<open>count\<close> is 5 when
  the body has none.
\<close>

definition flashcards_prompt :: "world \<Rightarrow> jsval \<Rightarrow> jsval \<Rightarrow> exn + string" where
  "flashcards_prompt w count' content =
     (case js_String w count' of
        Inl e \<Rightarrow> Inl e
      | Inr c \<Rightarrow>
          (case js_String w content of
             Inl e \<Rightarrow> Inl e
           | Inr t \<Rightarrow>
               Inr (''Create '' @ c @ '' flashcards from the following content. Each flashcard should have a clear question on the front and a concise answer on the back. Format as JSON array with objects containing \"front\" and \"back\" properties.''
                    @ nl @ nl @ ''Content: '' @ t @ nl @ nl
                    @ ''Return only the JSON array, no additional text.'')))"

definition post_flashcards_generate :: "world \<Rightarrow> jsval \<Rightarrow> response" where
  "post_flashcards_generate w body =
     (case js_member body ''content'' of
        Inl e \<Rightarrow> (500, message_body ''Failed to generate flashcards'')
      | Inr content \<Rightarrow>
          (case js_member body ''count'' of
             Inl e \<Rightarrow> (500, message_body ''Failed to generate flashcards'')
           | Inr c \<Rightarrow>
               if \<not> truthy content then (400, message_body ''Content is required'')
               else
                 (case flashcards_prompt w (default_to c (JNum 5)) content of
                    Inl e \<Rightarrow> (500, message_body ''Failed to generate flashcards'')
                  | Inr prompt \<Rightarrow>
                      (case openai_reply w of
                         Inl e \<Rightarrow> (500, message_body ''Failed to generate flashcards'')
                       | Inr text' \<Rightarrow>
                           (case JSON_parse w (str_or text' ''{}'') of
                              Inl e \<Rightarrow> (500, message_body ''Failed to generate flashcards'')
                            | Inr result \<Rightarrow>
                                (case js_member result ''flashcards'' of
                                   Inl e \<Rightarrow> (500, message_body ''Failed to generate flashcards'')
                                 | Inr cards \<Rightarrow> (200, js_or cards (JArr []))))))))"

subsection \<open>\<open>POST /api/notes/:id/enhance\<close>\<close>

text \<open>The prompt converts the stored \<open>title\<close>, then the stored \<open>content\<close>.\<close>

definition enhance_prompt :: "world \<Rightarrow> jsval \<Rightarrow> jsval \<Rightarrow> exn + string" where
  "enhance_prompt w title content =
     (case js_String w title of
        Inl e \<Rightarrow> Inl e
      | Inr t \<Rightarrow>
          (case js_String w content of
             Inl e \<Rightarrow> Inl e
           | Inr c \<Rightarrow>
               Inr (''Enhance and improve the following note by:'' @ nl
                    @ ''1. Fixing grammar and clarity'' @ nl
                    @ ''2. Adding structure and organization'' @ nl
                    @ ''3. Highlighting key concepts'' @ nl
                    @ ''4. Suggesting related topics to explore'' @ nl @ nl
                    @ ''Original note:'' @ nl
                    @ ''Title: '' @ t @ nl
                    @ ''Content: '' @ c @ nl @ nl
                    @ ''Return the enhanced content as plain text.'')))"

definition post_note_enhance :: "world \<Rightarrow> string \<Rightarrow> store \<Rightarrow> store \<times> response" where
  "post_note_enhance w id' s =
     (case getNote id' s of
        None \<Rightarrow> (s, (404, message_body ''Note not found''))
      | Some note' \<Rightarrow>
          (case enhance_prompt w (get_prop note' ''title'') (get_prop note' ''content'') of
             Inl e \<Rightarrow> (s, (500, message_body ''Failed to enhance note''))
           | Inr prompt \<Rightarrow>
               (case openai_reply w of
                  Inl e \<Rightarrow> (s, (500, message_body ''Failed to enhance note''))
                | Inr text' \<Rightarrow>
                    (let enhancedContent =
                           (case text' of
                              None \<Rightarrow> get_prop note' ''content''
                            | Some t \<Rightarrow> if t = [] then get_prop note' ''content'' else JStr t)
                     in case updateNote (now1 w) id' [(''content'', enhancedContent)] s of
                          Inl e \<Rightarrow> (s, (500, message_body ''Failed to enhance note''))
                        | Inr (s', updatedNote) \<Rightarrow> (s', (200, JObj updatedNote))))))"

subsection \<open>\<open>POST /api/quizzes/generate\<close>\<close>

text \<open>
  The prompt converts \<open>difficulty\<close>, \<open>subject\<close> and \<open>questionCount\<close>, then joins
  \<open>questionTypes\<close>, in this order.
\<close>

definition quiz_prompt :: "world \<Rightarrow> jsval \<Rightarrow> jsval \<Rightarrow> jsval \<Rightarrow> jsval \<Rightarrow> exn + string" where
  "quiz_prompt w difficulty subject questionCount questionTypes =
     (case js_String w difficulty of
        Inl e \<Rightarrow> Inl e
      | Inr d \<Rightarrow>
          (case js_String w subject of
             Inl e \<Rightarrow> Inl e
           | Inr sb \<Rightarrow>
               (case js_String w questionCount of
                  Inl e \<Rightarrow> Inl e
                | Inr n \<Rightarrow>
                    (case array_join w questionTypes '', '' of
                       Inl e \<Rightarrow> Inl e
                     | Inr types \<Rightarrow>
                         Inr (''Create a '' @ d @ '' difficulty quiz about \"'' @ sb @ ''\" with '' @ n
                              @ '' questions. '' @ nl @ ''      '' @ nl
                              @ ''Question types to include: '' @ types @ nl @ nl
                              @ ''Format as JSON with this structure:'' @ nl
                              @ ''{'' @ nl
                              @ ''  \"title\": \"Quiz title\",'' @ nl
                              @ ''  \"questions\": ['' @ nl
                              @ ''    {'' @ nl
                              @ ''      \"type\": \"multiple-choice\",'' @ nl
                              @ ''      \"question\": \"Question text\",'' @ nl
                              @ ''      \"options\": [\"A\", \"B\", \"C\", \"D\"],'' @ nl
                              @ ''      \"correctAnswer\": 0,'' @ nl
                              @ ''      \"explanation\": \"Why this is correct\"'' @ nl
                              @ ''    }'' @ nl
                              @ ''  ]'' @ nl
                              @ ''}'' @ nl @ nl
                              @ ''Return only the JSON, no additional text.'')))))"

text \<open>
  The last statements of the handler, from the parsed reply \<open>quizData\<close> on. The title is
  \<open>quizData.title || ${subject} Quiz\<close>: the template is evaluated only when the reply has
  no title.
\<close>

definition store_generated_quiz ::
    "world \<Rightarrow> jsval \<Rightarrow> jsval \<Rightarrow> jsval \<Rightarrow> store \<Rightarrow> store \<times> response" where
  "store_generated_quiz w subject difficulty quizData s =
     (case js_member quizData ''title'' of
        Inl e \<Rightarrow> (s, (500, message_body ''Failed to generate quiz''))
      | Inr title \<Rightarrow>
          (case (if truthy title then Inr title
                 else (case js_String w subject of
                         Inl e \<Rightarrow> Inl e
                       | Inr sb \<Rightarrow> Inr (JStr (sb @ '' Quiz'')))) of
             Inl e \<Rightarrow> (s, (500, message_body ''Failed to generate quiz''))
           | Inr title' \<Rightarrow>
               (case js_member quizData ''questions'' of
                  Inl e \<Rightarrow> (s, (500, message_body ''Failed to generate quiz''))
                | Inr questions \<Rightarrow>
                    (let (s', quiz) = createQuiz (uuid1 w) (now1 w)
                           [(''userId'', JStr DEFAULT_USER_ID),
                            (''title'', title'),
                            (''subject'', subject),
                            (''difficulty'', difficulty),
                            (''questions'', js_or questions (JArr []))] s
                     in (s', (200, JObj quiz))))))"

text \<open>
  The handler. The destructuring reads the four properties of \<open>req.body\<close>;
  \<open>questionCount\<close> is 5 and \<open>questionTypes\<close> is \<open>['multiple-choice']\<close> when the body has
  none.
\<close>

definition post_quizzes_generate :: "world \<Rightarrow> jsval \<Rightarrow> store \<Rightarrow> store \<times> response" where
  "post_quizzes_generate w body s =
     (case js_member body ''subject'' of
        Inl e \<Rightarrow> (s, (500, message_body ''Failed to generate quiz''))
      | Inr subject \<Rightarrow>
     (case js_member body ''difficulty'' of
        Inl e \<Rightarrow> (s, (500, message_body ''Failed to generate quiz''))
      | Inr difficulty \<Rightarrow>
     (case js_member body ''questionCount'' of
        Inl e \<Rightarrow> (s, (500, message_body ''Failed to generate quiz''))
      | Inr n \<Rightarrow>
     (case js_member body ''questionTypes'' of
        Inl e \<Rightarrow> (s, (500, message_body ''Failed to generate quiz''))
      | Inr q \<Rightarrow>
          if \<not> truthy subject then (s, (400, message_body ''Subject is required''))
          else
            (case quiz_prompt w difficulty subject (default_to n (JNum 5))
                    (default_to q (JArr [JStr ''multiple-choice''])) of
               Inl e \<Rightarrow> (s, (500, message_body ''Failed to generate quiz''))
             | Inr prompt \<Rightarrow>
                 (case openai_reply w of
                    Inl e \<Rightarrow> (s, (500, message_body ''Failed to generate quiz''))
                  | Inr text' \<Rightarrow>
                      (case JSON_parse w (str_or text' ''{}'') of
                         Inl e \<Rightarrow> (s, (500, message_body ''Failed to generate quiz''))
                       | Inr quizData \<Rightarrow>
                           store_generated_quiz w subject difficulty quizData s)))))))"

subsection \<open>\<open>POST /api/quizzes/:id/attempts\<close>\<close>

text \<open>
  The callback of \<open>answers.forEach\<close>, run over the answers with their indices:
  \<open>if (questions[index] && answer === questions[index].correctAnswer) score++\<close>.
\<close>

fun score_answers :: "jsval \<Rightarrow> jsval list \<Rightarrow> nat \<Rightarrow> int \<Rightarrow> exn + int" where
  "score_answers questions [] index score = Inr score"
| "score_answers questions (answer # rest) index score =
     (case js_index questions index of
        Inl e \<Rightarrow> Inl e
      | Inr q \<Rightarrow>
          if truthy q then
            (case js_member q ''correctAnswer'' of
               Inl e \<Rightarrow> Inl e
             | Inr correctAnswer \<Rightarrow>
                 score_answers questions rest (Suc index)
                   (if strict_eq answer correctAnswer then score + 1 else score))
          else score_answers questions rest (Suc index) score)"

text \<open>\<open>forEach\<close> exists on arrays only.\<close>

definition post_quiz_attempts :: "world \<Rightarrow> string \<Rightarrow> jsval \<Rightarrow> store \<Rightarrow> store \<times> response" where
  "post_quiz_attempts w id' body s =
     (case js_member body ''answers'' of
        Inl e \<Rightarrow> (s, (400, message_body ''Failed to submit quiz attempt''))
      | Inr answers \<Rightarrow>
          (case getQuiz id' s of
             None \<Rightarrow> (s, (404, message_body ''Quiz not found''))
           | Some quiz \<Rightarrow>
               (let questions = get_prop quiz ''questions'' in
                case answers of
                  JArr as \<Rightarrow>
                    (case score_answers questions as 0 0 of
                       Inl e \<Rightarrow> (s, (400, message_body ''Failed to submit quiz attempt''))
                     | Inr score \<Rightarrow>
                         (case js_member questions ''length'' of
                            Inl e \<Rightarrow> (s, (400, message_body ''Failed to submit quiz attempt''))
                          | Inr totalQuestions \<Rightarrow>
                              (let (s', attempt) = createQuizAttempt (uuid1 w) (now1 w)
                                     [(''quizId'', JStr id'),
                                      (''userId'', JStr DEFAULT_USER_ID),
                                      (''answers'', answers),
                                      (''score'', JNum score),
                                      (''totalQuestions'', totalQuestions)] s
                               in (s', (200, JObj attempt)))))
                | _ \<Rightarrow> (s, (400, message_body ''Failed to submit quiz attempt'')))))"

subsection \<open>\<open>POST /api/video-generations\<close> and its timer\<close>

text \<open>
  The handler validates \<open>{...req.body, userId}\<close>, creates the record, schedules the
  callback with \<open>setTimeout(..., 5000)\<close> and answers with the record. The third component
  is what the request schedules: the \<open>video\<close> object each pending callback has captured.
\<close>

definition post_video_generations ::
    "world \<Rightarrow> jsval \<Rightarrow> store \<Rightarrow> store \<times> response \<times> obj list" where
  "post_video_generations w body s =
     (case zod_parse w (spread (own_props body) [(''userId'', JStr DEFAULT_USER_ID)]) of
        Inl e \<Rightarrow> (s, (400, message_body ''Invalid video generation data''), [])
      | Inr data' \<Rightarrow>
          (let (s', video) = createVideoGeneration (uuid1 w) (now1 w) data' s
           in (s', (200, JObj video), [video])))"

text \<open>
  The callback, when the timer fires at \<open>now\<close>. \<open>video.id\<close> is the string
  \<open>createVideoGeneration\<close> put there; a failed update is logged and changes nothing.
\<close>

definition video_timer_fires :: "int \<Rightarrow> obj \<Rightarrow> store \<Rightarrow> store" where
  "video_timer_fires now video s =
     (case get_prop video ''id'' of
        JStr vid \<Rightarrow>
          (case updateVideoGeneration vid
                  [(''status'', JStr ''completed''),
                   (''videoUrl'', JStr (''https://example.com/videos/'' @ vid @ ''.mp4'')),
                   (''thumbnailUrl'', JStr (''https://example.com/thumbnails/'' @ vid @ ''.jpg'')),
                   (''completedAt'', JDate now)] s of
             Inl e \<Rightarrow> s
           | Inr (s', updated) \<Rightarrow> s')
      | _ \<Rightarrow> s)"

text \<open>\<open>GET /api/video-generations/:id\<close>.\<close>

definition get_video_generation :: "string \<Rightarrow> store \<Rightarrow> response" where
  "get_video_generation id' s =
     (case getVideoGeneration id' s of
        None \<Rightarrow> (404, message_body ''Video generation not found'')
      | Some video \<Rightarrow> (200, JObj video))"

subsection \<open>\<open>PUT /api/notes/:id\<close> and \<open>PUT /api/flashcards/:id\<close>\<close>


definition put_flashcard :: "string \<Rightarrow> jsval \<Rightarrow> store \<Rightarrow> store \<times> response" where
  "put_flashcard id' body s =
     (case updateFlashcard id' (own_props body) s of
        Inl e \<Rightarrow> (s, (400, message_body ''Failed to update flashcard''))
      | Inr (s', card') \<Rightarrow> (s', (200, JObj card')))"

section \<open>What the claims speak of\<close>

text \<open>
  The predicates below belong to the statements, not to the program: each says in one
  place what a claim's words mean on the model.
\<close>

text \<open>
  Position \<open>i\<close> is answered correctly, as the handler tests it: the question there is
  truthy and \<open>answers[i] === questions[i].correctAnswer\<close>.
\<close>

definition correct_at :: "jsval list \<Rightarrow> jsval list \<Rightarrow> nat \<Rightarrow> bool" where
  "correct_at questions answers i \<longleftrightarrow>
     i < length questions \<and> i < length answers \<and> truthy (questions ! i) \<and>
     (case js_member (questions ! i) ''correctAnswer'' of
        Inl e \<Rightarrow> False
      | Inr correctAnswer \<Rightarrow> strict_eq (answers ! i) correctAnswer)"



text \<open>
  The updated-or-created instant of a record, read off the record itself: the date in
  \<open>updatedAt\<close> when there is one, the date in \<open>createdAt\<close> otherwise.
\<close>

definition instant_of :: "obj \<Rightarrow> int" where
  "instant_of x =
     (case get_prop x ''updatedAt'' of
        JDate t \<Rightarrow> t
      | _ \<Rightarrow> (case get_prop x ''createdAt'' of JDate t \<Rightarrow> t | _ \<Rightarrow> 0))"

text \<open>
  What listing by owner promises of its result \<open>rs\<close>, for the map \<open>m\<close> it reads: the
  records are exactly the stored ones whose \<open>userId\<close> is the given one, no record is
  followed by one of a later instant, and records of one instant stand in the order the
  map holds them (insertion order).
\<close>

definition listed_recent_first :: "string \<Rightarrow> (string \<times> obj) list \<Rightarrow> obj list \<Rightarrow> bool" where
  "listed_recent_first userId m rs \<longleftrightarrow>
     mset rs = mset (filter (\<lambda>x. get_prop x ''userId'' = JStr userId) (map_values m)) \<and>
     sorted_wrt (\<lambda>a b. instant_of b \<le> instant_of a) rs \<and>
     (\<forall>t. filter (\<lambda>x. instant_of x = t) rs
            = filter (\<lambda>x. instant_of x = t)
                (filter (\<lambda>x. get_prop x ''userId'' = JStr userId) (map_values m)))"

text \<open>
  The records carry their dates as the store writes them: a conversation, flashcard set
  or note has a \<open>Date\<close> in \<open>updatedAt\<close> (written at creation and at every update); a
  quiz has a \<open>Date\<close> in \<open>createdAt\<close> and no \<open>updatedAt\<close> (the quiz table has no such
  column, and the one caller of \<open>createQuiz\<close> passes none).
\<close>

definition is_date :: "jsval \<Rightarrow> bool" where
  "is_date v = (case v of JDate t \<Rightarrow> True | _ \<Rightarrow> False)"

definition store_dated :: "store \<Rightarrow> bool" where
  "store_dated s \<longleftrightarrow>
     list_all (\<lambda>x. is_date (get_prop x ''updatedAt'')) (map_values (conversations s)) \<and>
     list_all (\<lambda>x. is_date (get_prop x ''updatedAt'')) (map_values (flashcardSets s)) \<and>
     list_all (\<lambda>x. is_date (get_prop x ''updatedAt'')) (map_values (notesMap s))"

definition quizzes_dated :: "store \<Rightarrow> bool" where
  "quizzes_dated s \<longleftrightarrow>
     list_all (\<lambda>x. is_date (get_prop x ''createdAt'') \<and> get_prop x ''updatedAt'' = Undefined)
       (map_values (quizzes s))"

section \<open>Sample inputs\<close>

text \<open>
  Concrete inputs for the examples that follow each theorem. \<open>sample_parse\<close> is
  \<open>JSON.parse\<close> on the texts the examples use (on these it agrees with the real
  function); any other text is reported as a syntax error, and the only such text an
  example parses is not JSON.
\<close>

definition gpt_frame_text :: string where
  "gpt_frame_text = ''{\"type\":\"chat_message\",\"conversationId\":\"c1\",\"content\":\"hello\",\"role\":\"system\",\"model\":\"gpt-5\",\"attachments\":[1]}''"

definition gpt_frame :: obj where
  "gpt_frame = [(''type'', JStr ''chat_message''), (''conversationId'', JStr ''c1''),
                (''content'', JStr ''hello''), (''role'', JStr ''system''),
                (''model'', JStr ''gpt-5''), (''attachments'', JArr [JNum 1])]"

definition gemini_frame_text :: string where
  "gemini_frame_text = ''{\"type\":\"chat_message\",\"conversationId\":\"c1\",\"content\":\"hello\",\"role\":\"user\",\"model\":\"gemini-pro\"}''"

definition gemini_frame :: obj where
  "gemini_frame = [(''type'', JStr ''chat_message''), (''conversationId'', JStr ''c1''),
                (''content'', JStr ''hello''), (''role'', JStr ''user''),
                (''model'', JStr ''gemini-pro'')]"

definition claude_frame_text :: string where
  "claude_frame_text = ''{\"type\":\"chat_message\",\"conversationId\":\"c1\",\"content\":\"hello\",\"role\":\"assistant\",\"model\":\"claude-3\",\"attachments\":[1]}''"

definition claude_frame :: obj where
  "claude_frame = [(''type'', JStr ''chat_message''), (''conversationId'', JStr ''c1''),
                (''content'', JStr ''hello''), (''role'', JStr ''assistant''),
                (''model'', JStr ''claude-3''), (''attachments'', JArr [JNum 1])]"

definition number_frame_text :: string where
  "number_frame_text = ''{\"type\":\"chat_message\",\"conversationId\":\"c1\",\"content\":\"hello\",\"model\":5}''"

definition number_frame :: obj where
  "number_frame = [(''type'', JStr ''chat_message''), (''conversationId'', JStr ''c1''),
                (''content'', JStr ''hello''), (''model'', JNum 5)]"

definition sample_parse :: "string \<Rightarrow> exn + jsval" where
  "sample_parse text' =
     (if text' = ''{}'' then Inr (JObj [])
      else if text' = ''null'' then Inr JNull
      else if text' = ''{\"type\":\"ping\"}'' then Inr (JObj [(''type'', JStr ''ping'')])
      else if text' = gpt_frame_text then Inr (JObj gpt_frame)
      else if text' = gemini_frame_text then Inr (JObj gemini_frame)
      else if text' = claude_frame_text then Inr (JObj claude_frame)
      else if text' = number_frame_text then Inr (JObj number_frame)
      else Inl (SyntaxError ''Unexpected token''))"

definition sample_world :: world where
  "sample_world =
     \<lparr>JSON_parse = sample_parse,
      zod_parse = (\<lambda>data'. if truthy (get_prop data' ''prompt'') then Inr data' else Inl (Error ''Required'')),
      ToString = (\<lambda>v. case v of JStr s \<Rightarrow> s | _ \<Rightarrow> ''[object Object]''),
      uuid1 = ''id-1'', now1 = 1000, uuid2 = ''id-2'', now2 = 2000,
      openai_reply = Inl (Error ''429 rate limit''),
      anthropic_reply = Inr (Some ''Hi there''),
      startsWith_error = (\<lambda>v. ''model.startsWith is not a function'')\<rparr>"

definition sample_relay :: relay where
  "sample_relay = \<lparr>storage = MemStorage 0, sent = [], calls = []\<rparr>"

definition sample_question :: "int \<Rightarrow> jsval" where
  "sample_question n =
     JObj [(''type'', JStr ''multiple-choice''), (''question'', JStr ''Which one?''),
           (''options'', JArr [JStr ''A'', JStr ''B'', JStr ''C'', JStr ''D'']),
           (''correctAnswer'', JNum n), (''explanation'', JStr ''Because.'')]"

definition multi_question :: jsval where
  "multi_question =
     JObj [(''type'', JStr ''multi-select''), (''question'', JStr ''Which ones?''),
           (''options'', JArr [JStr ''A'', JStr ''B'']),
           (''correctAnswer'', JArr [JNum 0]), (''explanation'', JStr ''Because.'')]"

definition sample_quiz_store :: store where
  "sample_quiz_store =
     (MemStorage 0)\<lparr>quizzes :=
        [(''quiz-1'', [(''userId'', JStr ''default-user''), (''title'', JStr ''Sample Quiz''),
                      (''subject'', JStr ''Sample''), (''difficulty'', JStr ''easy''),
                      (''questions'', JArr [sample_question 0, sample_question 1, sample_question 2]),
                      (''id'', JStr ''quiz-1''), (''createdAt'', JDate 10)]),
         (''quiz-2'', [(''userId'', JStr ''default-user''), (''title'', JStr ''Multi Quiz''),
                      (''subject'', JStr ''Sample''), (''difficulty'', JStr ''easy''),
                      (''questions'', JArr [multi_question]),
                      (''id'', JStr ''quiz-2''), (''createdAt'', JDate 20)])]\<rparr>"


definition sample_list_store :: store where
  "sample_list_store =
     (MemStorage 0)\<lparr>
        conversations :=
          [(''c1'', [(''userId'', JStr ''default-user''), (''title'', JStr ''first''),
                     (''id'', JStr ''c1''), (''createdAt'', JDate 10), (''updatedAt'', JDate 30)]),
           (''c2'', [(''userId'', JStr ''someone-else''), (''title'', JStr ''second''),
                     (''id'', JStr ''c2''), (''createdAt'', JDate 20), (''updatedAt'', JDate 50)]),
           (''c3'', [(''userId'', JStr ''default-user''), (''title'', JStr ''third''),
                     (''id'', JStr ''c3''), (''createdAt'', JDate 40), (''updatedAt'', JDate 40)]),
           (''c4'', [(''userId'', JStr ''default-user''), (''title'', JStr ''fourth''),
                     (''id'', JStr ''c4''), (''createdAt'', JDate 30), (''updatedAt'', JDate 30)])],
        quizzes :=
          [(''q1'', [(''userId'', JStr ''default-user''), (''title'', JStr ''one''),
                     (''questions'', JArr []), (''id'', JStr ''q1''), (''createdAt'', JDate 5)]),
           (''q2'', [(''userId'', JStr ''default-user''), (''title'', JStr ''two''),
                     (''questions'', JArr []), (''id'', JStr ''q2''), (''createdAt'', JDate 9)]),
           (''q3'', [(''userId'', JStr ''default-user''), (''title'', JStr ''three''),
                     (''questions'', JArr []), (''id'', JStr ''q3''), (''createdAt'', JDate 7)])]\<rparr>"

definition sample_video_body :: jsval where
  "sample_video_body =
     JObj [(''prompt'', JStr ''A cat surfing''), (''duration'', JNum 5),
           (''style'', JStr ''realistic''), (''aspectRatio'', JStr ''16:9'')]"

definition sample_video :: obj where
  "sample_video =
     [(''prompt'', JStr ''A cat surfing''), (''duration'', JNum 5),
      (''style'', JStr ''realistic''), (''aspectRatio'', JStr ''16:9''),
      (''userId'', JStr ''default-user''), (''id'', JStr ''id-1''),
      (''status'', JStr ''pending''), (''videoUrl'', JNull), (''thumbnailUrl'', JNull),
      (''completedAt'', JNull), (''createdAt'', JDate 1000)]"

definition sample_card_store :: store where
  "sample_card_store =
     (MemStorage 0)\<lparr>
        flashcardSets :=
          [(''s1'', [(''userId'', JStr ''default-user''), (''title'', JStr ''Biology''),
                     (''id'', JStr ''s1''), (''createdAt'', JDate 10), (''updatedAt'', JDate 10)]),
           (''s2'', [(''userId'', JStr ''default-user''), (''title'', JStr ''History''),
                     (''id'', JStr ''s2''), (''createdAt'', JDate 20), (''updatedAt'', JDate 20)])],
        flashcards :=
          [(''f1'', [(''setId'', JStr ''s1''), (''front'', JStr ''Q1''), (''back'', JStr ''A1''),
                     (''id'', JStr ''f1'')]),
           (''f2'', [(''setId'', JStr ''s2''), (''front'', JStr ''Q2''), (''back'', JStr ''A2''),
                     (''id'', JStr ''f2'')]),
           (''f3'', [(''setId'', JStr ''s1''), (''front'', JStr ''Q3''), (''back'', JStr ''A3''),
                     (''id'', JStr ''f3'')])]\<rparr>"

section \<open>Properties of the ordered maps\<close>

lemma map_get_map_set: "map_get (map_set k v m) k' = (if k' = k then Some v else map_get m k')"
  by (induction m) (auto simp: map_get_def)

lemma map_get_map_delete:
  "map_get (map_delete k m) k' = (if k' = k then None else map_get m k')"
  by (induction m) (auto simp: map_get_def map_delete_def)

lemma map_keys_map_set:
  "set (map_keys (map_set k v m)) = insert k (set (map_keys m))"
  by (induction m) (auto simp: map_keys_def)

lemma distinct_map_set: "distinct (map_keys m) \<Longrightarrow> distinct (map_keys (map_set k v m))"
proof (induction m)
  case Nil
  then show ?case by (simp add: map_keys_def)
next
  case (Cons p ps)
  have "set (map_keys (map_set k v ps)) = insert k (set (map_keys ps))"
    by (rule map_keys_map_set)
  with Cons show ?case by (auto simp: map_keys_def)
qed

lemma distinct_map_delete: "distinct (map_keys m) \<Longrightarrow> distinct (map_keys (map_delete k m))"
  by (simp add: map_keys_def map_delete_def distinct_map_filter)

subsection \<open>Objects and spreads\<close>

lemma get_prop_simps [simp]:
  "get_prop [] k = Undefined"
  "get_prop ((k', v) # fs) k = (if k' = k then v else get_prop fs k)"
  by (auto simp: get_prop_def map_get_def)

lemma map_get_spread:
  "map_get (spread a b) k = (case map_of (rev b) k of Some v \<Rightarrow> Some v | None \<Rightarrow> map_get a k)"
proof (induction b arbitrary: a)
  case Nil
  show ?case by (simp add: spread_def)
next
  case (Cons p b)
  have "spread a (p # b) = spread (map_set (fst p) (snd p) a) b"
    by (simp add: spread_def)
  then show ?case
    by (cases p) (auto simp: Cons.IH map_get_map_set map_add_def split: option.splits)
qed


lemma get_prop_spread:
  "get_prop (spread a b) k = (case map_of (rev b) k of Some v \<Rightarrow> v | None \<Rightarrow> get_prop a k)"
  by (simp add: get_prop_def map_get_spread split: option.splits)


lemma get_prop_spread_last:
  "get_prop (spread a (b @ [(k, v)])) k = v"
  by (simp add: get_prop_def map_get_spread)


subsection \<open>Values\<close>

lemma strict_eq_iff: "strict_eq a b \<longleftrightarrow> primitive a \<and> a = b"
  by (cases a; cases b) auto

lemma strict_eq_JStr: "strict_eq v (JStr x) \<longleftrightarrow> v = JStr x"
  by (cases v) auto

lemma own_props_JObj [simp]: "own_props (JObj fs) = fs"
  by (simp add: own_props_def)

lemma js_member_JObj [simp]: "js_member (JObj fs) k = Inr (get_prop fs k)"
  by (simp add: js_member_def)

lemma js_member_truthy: "truthy q \<Longrightarrow> \<exists>v. js_member q k = Inr v"
  by (cases q) (auto simp: js_member_def)

lemma js_member_chat_message:
  "js_member v ''type'' = Inr (JStr ''chat_message'') \<Longrightarrow> \<exists>fs. v = JObj fs"
  by (cases v) (auto simp: js_member_def)



subsection \<open>The sample inputs\<close>

lemma sample_parse_frames:
  "sample_parse gpt_frame_text = Inr (JObj gpt_frame)"
  "sample_parse gemini_frame_text = Inr (JObj gemini_frame)"
  "sample_parse claude_frame_text = Inr (JObj claude_frame)"
  "sample_parse number_frame_text = Inr (JObj number_frame)"
  by (simp_all add: sample_parse_def gpt_frame_text_def gemini_frame_text_def
        claude_frame_text_def number_frame_text_def)

lemma sample_world_simps:
  "JSON_parse sample_world = sample_parse"
  "uuid1 sample_world = ''id-1''" "now1 sample_world = 1000"
  "uuid2 sample_world = ''id-2''" "now2 sample_world = 2000"
  "openai_reply sample_world = Inl (Error ''429 rate limit'')"
  "anthropic_reply sample_world = Inr (Some ''Hi there'')"
  by (simp_all add: sample_world_def)

lemma sample_world_startsWith:
  "startsWith_error sample_world v = ''model.startsWith is not a function''"
  by (simp add: sample_world_def)

lemma sample_relay_simps:
  "sent sample_relay = []" "calls sample_relay = []" "storage sample_relay = MemStorage 0"
  by (simp_all add: sample_relay_def)

section \<open>Cascading deletes\<close>

text \<open>
  The three cascading deletes share one loop: over a snapshot of the keys, look the
  record up and delete it when its parent field matches.
\<close>

lemma cascade_lookup:
  "map_get (fold (\<lambda>key ms. if Q (map_get ms key) then map_delete key ms else ms) ks m) k
     = (if k \<in> set ks \<and> Q (map_get m k) then None else map_get m k)"
proof (induction ks arbitrary: m)
  case Nil
  show ?case by simp
next
  case (Cons key ks)
  show ?case
  proof (cases "Q (map_get m key)")
    case True
    then show ?thesis
      using Cons [of "map_delete key m"] by (auto simp: map_get_map_delete)
  next
    case False
    then show ?thesis
      using Cons [of m] by auto
  qed
qed

lemma cascade_filter:
  assumes "distinct (map_keys m)"
  shows "fold (\<lambda>key ms. if Q (map_get ms key) then map_delete key ms else ms) ks m
           = filter (\<lambda>p. \<not> (fst p \<in> set ks \<and> Q (Some (snd p)))) m"
  using assms
proof (induction ks arbitrary: m)
  case Nil
  show ?case by simp
next
  case (Cons key ks)
  have look: "\<And>p. p \<in> set m \<Longrightarrow> map_get m (fst p) = Some (snd p)"
    using Cons.prems by (auto simp: map_get_def map_keys_def)
  show ?case
  proof (cases "Q (map_get m key)")
    case True
    have d: "distinct (map_keys (map_delete key m))"
      using Cons.prems by (rule distinct_map_delete)
    have "fold (\<lambda>key ms. if Q (map_get ms key) then map_delete key ms else ms) (key # ks) m
            = filter (\<lambda>p. \<not> (fst p \<in> set ks \<and> Q (Some (snd p)))) (map_delete key m)"
      using True Cons.IH [OF d] by simp
    also have "\<dots> = filter (\<lambda>p. \<not> (fst p \<in> set (key # ks) \<and> Q (Some (snd p)))) m"
      unfolding map_delete_def filter_filter
      by (rule filter_cong) (use True look in auto)
    finally show ?thesis .
  next
    case False
    have "fold (\<lambda>key ms. if Q (map_get ms key) then map_delete key ms else ms) (key # ks) m
            = filter (\<lambda>p. \<not> (fst p \<in> set ks \<and> Q (Some (snd p)))) m"
      using False Cons.IH [OF Cons.prems] by simp
    also have "\<dots> = filter (\<lambda>p. \<not> (fst p \<in> set (key # ks) \<and> Q (Some (snd p)))) m"
      by (rule filter_cong) (use False look in auto)
    finally show ?thesis .
  qed
qed

lemma cascade_parent_lookup:
  "map_get (fold (\<lambda>key ms. if strict_eq (opt_prop (map_get ms key) field) (JStr i)
                              then map_delete key ms else ms) (map_keys m) m) k
     = (case map_get m k of
          None \<Rightarrow> None
        | Some c \<Rightarrow> if get_prop c field = JStr i then None else Some c)"
proof -
  let ?F = "\<lambda>key ms. if strict_eq (opt_prop (map_get ms key) field) (JStr i)
                        then map_delete key ms else ms"
  have h: "map_get (fold ?F (map_keys m) m) k
             = (if k \<in> set (map_keys m) \<and> strict_eq (opt_prop (map_get m k) field) (JStr i)
                then None else map_get m k)"
    by (rule cascade_lookup [where Q = "\<lambda>x. strict_eq (opt_prop x field) (JStr i)"])
  show ?thesis
  proof (cases "map_get m k")
    case None
    with h show ?thesis by simp
  next
    case (Some c)
    then have "k \<in> set (map_keys m)"
      by (auto simp: map_get_def map_keys_def dest: map_of_SomeD intro: rev_image_eqI)
    with h Some show ?thesis
      by (simp add: opt_prop_def strict_eq_JStr)
  qed
qed

lemma cascade_parent_filter:
  "distinct (map_keys m) \<Longrightarrow>
   fold (\<lambda>key ms. if strict_eq (opt_prop (map_get ms key) field) (JStr i)
                    then map_delete key ms else ms) (map_keys m) m
     = filter (\<lambda>p. get_prop (snd p) field \<noteq> JStr i) m"
proof -
  assume d: "distinct (map_keys m)"
  have "filter (\<lambda>p. \<not> (fst p \<in> set (map_keys m) \<and> strict_eq (opt_prop (Some (snd p)) field) (JStr i))) m
          = filter (\<lambda>p. get_prop (snd p) field \<noteq> JStr i) m"
    by (rule filter_cong) (auto simp: map_keys_def opt_prop_def strict_eq_JStr)
  with cascade_filter [OF d, where Q = "\<lambda>x. strict_eq (opt_prop x field) (JStr i)" and ks = "map_keys m"]
  show ?thesis by simp
qed

text \<open>
  Claim C4. \<open>deleteFlashcardSet\<close> removes exactly the flashcards whose \<open>setId\<close> is the
  deleted identifier, \<open>deleteQuiz\<close> exactly the attempts whose \<open>quizId\<close> is it,
  \<open>deleteConversation\<close> exactly the messages whose \<open>conversationId\<close> is it: under every
  key \<open>k\<close> the child map afterwards holds nothing if the record held before referenced the
  deleted parent, and the very same record otherwise. The parent map loses the key; the
  seven other maps of the store are the same (the record equations).
\<close>

theorem cascade_delete_exact:
  "map_get (flashcards (deleteFlashcardSet i s)) k
     = (case map_get (flashcards s) k of
          None \<Rightarrow> None
        | Some c \<Rightarrow> if get_prop c ''setId'' = JStr i then None else Some c)
   \<and> map_get (quizAttempts (deleteQuiz i s)) k
     = (case map_get (quizAttempts s) k of
          None \<Rightarrow> None
        | Some a \<Rightarrow> if get_prop a ''quizId'' = JStr i then None else Some a)
   \<and> map_get (messages (deleteConversation i s)) k
     = (case map_get (messages s) k of
          None \<Rightarrow> None
        | Some m \<Rightarrow> if get_prop m ''conversationId'' = JStr i then None else Some m)
   \<and> deleteFlashcardSet i s
     = s\<lparr>flashcardSets := map_delete i (flashcardSets s),
         flashcards := flashcards (deleteFlashcardSet i s)\<rparr>
   \<and> deleteQuiz i s
     = s\<lparr>quizzes := map_delete i (quizzes s),
         quizAttempts := quizAttempts (deleteQuiz i s)\<rparr>
   \<and> deleteConversation i s
     = s\<lparr>conversations := map_delete i (conversations s),
         messages := messages (deleteConversation i s)\<rparr>"
  by (simp add: deleteFlashcardSet_def deleteQuiz_def deleteConversation_def Let_def
        cascade_parent_lookup)

text \<open>An example: deleting set \<open>s1\<close> takes its two cards and leaves the third.\<close>

theorem cascade_delete_witness:
  "deleteFlashcardSet ''s1'' sample_card_store
     = sample_card_store\<lparr>
         flashcardSets :=
           [(''s2'', [(''userId'', JStr ''default-user''), (''title'', JStr ''History''),
                      (''id'', JStr ''s2''), (''createdAt'', JDate 20), (''updatedAt'', JDate 20)])],
         flashcards :=
           [(''f2'', [(''setId'', JStr ''s2''), (''front'', JStr ''Q2''), (''back'', JStr ''A2''),
                      (''id'', JStr ''f2'')])]\<rparr>
   \<and> map_get (flashcards (deleteFlashcardSet ''s1'' sample_card_store)) ''f1'' = None
   \<and> map_get (flashcards (deleteFlashcardSet ''s1'' sample_card_store)) ''f2''
     = map_get (flashcards sample_card_store) ''f2''"
proof -
  have run: "deleteFlashcardSet ''s1'' sample_card_store
     = sample_card_store\<lparr>
         flashcardSets :=
           [(''s2'', [(''userId'', JStr ''default-user''), (''title'', JStr ''History''),
                      (''id'', JStr ''s2''), (''createdAt'', JDate 20), (''updatedAt'', JDate 20)])],
         flashcards :=
           [(''f2'', [(''setId'', JStr ''s2''), (''front'', JStr ''Q2''), (''back'', JStr ''A2''),
                      (''id'', JStr ''f2'')])]\<rparr>"
    by (simp add: deleteFlashcardSet_def sample_card_store_def Let_def map_keys_def
          map_delete_def map_get_def opt_prop_def MemStorage_def)
  have old: "map_get (flashcards sample_card_store) ''f1''
               = Some [(''setId'', JStr ''s1''), (''front'', JStr ''Q1''), (''back'', JStr ''A1''),
                       (''id'', JStr ''f1'')]"
    "map_get (flashcards sample_card_store) ''f2''
               = Some [(''setId'', JStr ''s2''), (''front'', JStr ''Q2''), (''back'', JStr ''A2''),
                       (''id'', JStr ''f2'')]"
    by (simp_all add: sample_card_store_def map_get_def)
  from cascade_delete_exact [of "''s1''" sample_card_store "''f1''"]
       cascade_delete_exact [of "''s1''" sample_card_store "''f2''"]
  have "map_get (flashcards (deleteFlashcardSet ''s1'' sample_card_store)) ''f1'' = None"
    and "map_get (flashcards (deleteFlashcardSet ''s1'' sample_card_store)) ''f2''
           = map_get (flashcards sample_card_store) ''f2''"
    by (simp_all add: old)
  with run show ?thesis by simp
qed

text \<open>
  With the keys of a map distinct, as a \<open>Map\<close> has them, the loop is a filter: the
  records that stay keep their order.
\<close>

lemma cascade_delete_order:
  assumes "distinct (map_keys (flashcards s))"
    and "distinct (map_keys (quizAttempts s))"
    and "distinct (map_keys (messages s))"
  shows "flashcards (deleteFlashcardSet i s)
           = filter (\<lambda>p. get_prop (snd p) ''setId'' \<noteq> JStr i) (flashcards s)"
    and "quizAttempts (deleteQuiz i s)
           = filter (\<lambda>p. get_prop (snd p) ''quizId'' \<noteq> JStr i) (quizAttempts s)"
    and "messages (deleteConversation i s)
           = filter (\<lambda>p. get_prop (snd p) ''conversationId'' \<noteq> JStr i) (messages s)"
  using assms
  by (simp_all add: deleteFlashcardSet_def deleteQuiz_def deleteConversation_def Let_def
        cascade_parent_filter)

section \<open>Updates\<close>






section \<open>Listing by owner\<close>

text \<open>
  Sorting with a comparator that answers \<open>k b - k a\<close> on the elements at hand is the
  stable sort by descending \<open>k\<close>.
\<close>

lemma insert_by_keyed:
  assumes "\<forall>y \<in> set ys. cmp x y = Inr (k y - k x)"
  shows "insert_by cmp x ys = Inr (insort_key (\<lambda>z. - k z) x ys)"
  using assms by (induction ys) simp_all

lemma array_sort_keyed:
  assumes "\<forall>a \<in> set xs. \<forall>b \<in> set xs. cmp a b = Inr (k b - k a)"
  shows "array_sort cmp xs = Inr (sort_key (\<lambda>z. - k z) xs)"
  using assms
proof (induction xs)
  case Nil
  show ?case by simp
next
  case (Cons x xs)
  then have IH: "array_sort cmp xs = Inr (sort_key (\<lambda>z. - k z) xs)"
    by simp
  from Cons.prems have "\<forall>y \<in> set (sort_key (\<lambda>z. - k z) xs). cmp x y = Inr (k y - k x)"
    by simp
  then have "insert_by cmp x (sort_key (\<lambda>z. - k z) xs)
               = Inr (insort_key (\<lambda>z. - k z) x (sort_key (\<lambda>z. - k z) xs))"
    by (rule insert_by_keyed)
  then show ?case
    by (simp add: IH)
qed

lemma recent_dated:
  "is_date (get_prop x ''updatedAt'') \<Longrightarrow> recent x = Inr (instant_of x)"
  by (cases "get_prop x ''updatedAt''")
     (simp_all add: is_date_def recent_def getTime_def js_or_def instant_of_def)

lemma created_dated:
  "is_date (get_prop x ''createdAt'') \<Longrightarrow> get_prop x ''updatedAt'' = Undefined
     \<Longrightarrow> created x = Inr (instant_of x)"
  by (cases "get_prop x ''createdAt''")
     (simp_all add: is_date_def created_def getTime_def instant_of_def)

lemma listing_recent_first:
  assumes cmp: "\<forall>a \<in> set (map_values m). \<forall>b \<in> set (map_values m).
                  cmp a b = Inr (instant_of b - instant_of a)"
  shows "\<exists>rs. array_sort cmp (filter (\<lambda>x. strict_eq (get_prop x ''userId'') (JStr uid)) (map_values m))
                = Inr rs
              \<and> listed_recent_first uid m rs"
proof -
  let ?owned = "filter (\<lambda>x. get_prop x ''userId'' = JStr uid) (map_values m)"
  let ?rs = "sort_key (\<lambda>z. - instant_of z) ?owned"
  have "\<forall>a \<in> set ?owned. \<forall>b \<in> set ?owned. cmp a b = Inr (instant_of b - instant_of a)"
    using cmp by simp
  then have run: "array_sort cmp ?owned = Inr ?rs"
    by (rule array_sort_keyed)
  have "sorted (map (\<lambda>z. - instant_of z) ?rs)"
    by (rule sorted_sort_key)
  then have ordered: "sorted_wrt (\<lambda>a b. instant_of b \<le> instant_of a) ?rs"
    by (simp add: sorted_map)
  have stable: "filter (\<lambda>x. instant_of x = t) ?rs = filter (\<lambda>x. instant_of x = t) ?owned" for t
    using sort_key_stable [of "\<lambda>z. - instant_of z" "- t" ?owned] by simp
  have "listed_recent_first uid m ?rs"
    unfolding listed_recent_first_def using ordered stable by simp
  with run show ?thesis
    by (simp add: strict_eq_JStr)
qed

subsection \<open>The store keeps its records dated\<close>

lemma list_all_map_set:
  "P v \<Longrightarrow> list_all P (map_values m) \<Longrightarrow> list_all P (map_values (map_set k v m))"
  by (induction m) (auto simp: map_values_def)

lemma list_all_map_delete:
  "list_all P (map_values m) \<Longrightarrow> list_all P (map_values (map_delete k m))"
  by (induction m) (auto simp: map_values_def map_delete_def)

lemma updated_stamped:
  "is_date (get_prop (spread a (b @ [(''updatedAt'', JDate now)])) ''updatedAt'')"
  by (simp add: is_date_def get_prop_spread_last)

lemma store_dated_MemStorage: "store_dated (MemStorage now)"
  by (simp add: store_dated_def MemStorage_def map_values_def)

lemma store_dated_step:
  assumes "store_step s s'" and "store_dated s"
  shows "store_dated s'"
  using assms
proof (induction rule: store_step.induct)
  case (step_createConversation s uuid now ins)
  then show ?case
    using updated_stamped [of ins "[(''id'', JStr uuid), (''createdAt'', JDate now)]" now]
    by (simp add: store_dated_def createConversation_def Let_def list_all_map_set)
next
  case (step_updateConversation now i upd s s' r)
  then show ?case
    using updated_stamped [of _ "[]" now]
    by (auto simp: store_dated_def updateConversation_def Let_def list_all_map_set
          split: option.splits)
next
  case (step_createFlashcardSet s uuid now ins)
  then show ?case
    using updated_stamped [of ins "[(''id'', JStr uuid), (''createdAt'', JDate now)]" now]
    by (simp add: store_dated_def createFlashcardSet_def Let_def list_all_map_set)
next
  case (step_updateFlashcardSet now i upd s s' r)
  then show ?case
    using updated_stamped [of _ "[]" now]
    by (auto simp: store_dated_def updateFlashcardSet_def Let_def list_all_map_set
          split: option.splits)
next
  case (step_createNote s uuid now ins)
  then show ?case
    using updated_stamped [of ins "[(''id'', JStr uuid), (''createdAt'', JDate now)]" now]
    by (simp add: store_dated_def createNote_def Let_def list_all_map_set)
next
  case (step_updateNote now i upd s s' r)
  then show ?case
    using updated_stamped [of _ "[]" now]
    by (auto simp: store_dated_def updateNote_def Let_def list_all_map_set
          split: option.splits)
next
  case (step_updateFlashcard i upd s s' r)
  then show ?case
    by (auto simp: store_dated_def updateFlashcard_def Let_def split: option.splits)
next
  case (step_updateVideoGeneration i upd s s' r)
  then show ?case
    by (auto simp: store_dated_def updateVideoGeneration_def Let_def split: option.splits)
qed (simp_all add: store_dated_def createUser_def deleteConversation_def createMessage_def
       deleteFlashcardSet_def createFlashcard_def deleteFlashcard_def deleteNote_def
       createQuiz_def deleteQuiz_def createQuizAttempt_def createVideoGeneration_def Let_def
       list_all_map_delete)

lemma store_dated_reachable:
  "store_step\<^sup>*\<^sup>* (MemStorage now) s \<Longrightarrow> store_dated s"
  by (induction rule: rtranclp_induct) (auto intro: store_dated_MemStorage store_dated_step)

text \<open>
  Quizzes enter the store through \<open>createQuiz\<close> only, and leave it through
  \<open>deleteQuiz\<close>; the generation route is the one caller of \<open>createQuiz\<close>.
\<close>

lemma quizzes_dated_MemStorage: "quizzes_dated (MemStorage now)"
  by (simp add: quizzes_dated_def MemStorage_def map_values_def)

lemma quizzes_dated_createQuiz:
  assumes "map_get ins ''updatedAt'' = None" and "quizzes_dated s"
  shows "quizzes_dated (fst (createQuiz uuid now ins s))"
proof -
  have "get_prop (spread ins [(''id'', JStr uuid), (''createdAt'', JDate now)]) ''createdAt''
          = JDate now"
    using get_prop_spread_last [of ins "[(''id'', JStr uuid)]" "''createdAt''" "JDate now"]
    by simp
  moreover have "get_prop ins ''updatedAt'' = Undefined"
    using assms(1) by (simp add: get_prop_def)
  then have "get_prop (spread ins [(''id'', JStr uuid), (''createdAt'', JDate now)]) ''updatedAt''
          = Undefined"
    by (simp add: get_prop_spread)
  ultimately show ?thesis
    using assms(2)
    by (simp add: quizzes_dated_def createQuiz_def Let_def list_all_map_set is_date_def)
qed

lemma quizzes_dated_deleteQuiz: "quizzes_dated s \<Longrightarrow> quizzes_dated (deleteQuiz i s)"
  by (simp add: quizzes_dated_def deleteQuiz_def Let_def list_all_map_delete)

lemma quizzes_step:
  assumes "store_step s s'"
  shows "quizzes s' = quizzes s
       \<or> (\<exists>i. s' = deleteQuiz i s)
       \<or> (\<exists>uuid now ins. s' = fst (createQuiz uuid now ins s))"
  using assms
proof (induction rule: store_step.induct)
  case (step_updateConversation now i upd s s' r)
  then show ?case
    by (auto simp: updateConversation_def Let_def split: option.splits)
next
  case (step_updateFlashcardSet now i upd s s' r)
  then show ?case
    by (auto simp: updateFlashcardSet_def Let_def split: option.splits)
next
  case (step_updateFlashcard i upd s s' r)
  then show ?case
    by (auto simp: updateFlashcard_def Let_def split: option.splits)
next
  case (step_updateNote now i upd s s' r)
  then show ?case
    by (auto simp: updateNote_def Let_def split: option.splits)
next
  case (step_updateVideoGeneration i upd s s' r)
  then show ?case
    by (auto simp: updateVideoGeneration_def Let_def split: option.splits)
next
  case (step_createQuiz s uuid now ins)
  show ?case by blast
next
  case (step_deleteQuiz s i)
  show ?case by blast
qed (simp_all add: createUser_def createConversation_def deleteConversation_def
       createMessage_def createFlashcardSet_def deleteFlashcardSet_def createFlashcard_def
       deleteFlashcard_def createNote_def deleteNote_def createQuizAttempt_def
       createVideoGeneration_def Let_def)

lemma quizzes_dated_step:
  assumes "store_step s s'" and "quizzes_dated s"
    and "\<And>uuid now ins. s' = fst (createQuiz uuid now ins s) \<Longrightarrow> map_get ins ''updatedAt'' = None"
  shows "quizzes_dated s'"
proof -
  consider "quizzes s' = quizzes s" | i where "s' = deleteQuiz i s"
    | uuid now ins where "s' = fst (createQuiz uuid now ins s)"
    using quizzes_step [OF assms(1)] by blast
  then show ?thesis
  proof cases
    case 1
    with assms(2) show ?thesis by (simp add: quizzes_dated_def)
  next
    case 2
    with assms(2) show ?thesis by (simp add: quizzes_dated_deleteQuiz)
  next
    case 3
    with assms(2,3) show ?thesis by (simp add: quizzes_dated_createQuiz)
  qed
qed

lemma store_generated_quiz_store:
  "fst (store_generated_quiz w subject difficulty quizData s) = s
   \<or> (\<exists>title' questions.
         fst (store_generated_quiz w subject difficulty quizData s)
           = fst (createQuiz (uuid1 w) (now1 w)
                    [(''userId'', JStr DEFAULT_USER_ID), (''title'', title'),
                     (''subject'', subject), (''difficulty'', difficulty),
                     (''questions'', questions)] s))"
proof (cases "js_member quizData ''title''")
  case (Inl e)
  then show ?thesis by (simp add: store_generated_quiz_def)
next
  case title: (Inr title)
  show ?thesis
  proof (cases "if truthy title then Inr title
                 else (case js_String w subject of
                         Inl e \<Rightarrow> Inl e
                       | Inr sb \<Rightarrow> Inr (JStr (sb @ '' Quiz'')))")
    case (Inl e)
    with title show ?thesis by (simp add: store_generated_quiz_def)
  next
    case title': (Inr title')
    show ?thesis
    proof (cases "js_member quizData ''questions''")
      case (Inl e)
      with title title' show ?thesis by (simp add: store_generated_quiz_def)
    next
      case (Inr questions)
      with title title' have "fst (store_generated_quiz w subject difficulty quizData s)
           = fst (createQuiz (uuid1 w) (now1 w)
                    [(''userId'', JStr DEFAULT_USER_ID), (''title'', title'),
                     (''subject'', subject), (''difficulty'', difficulty),
                     (''questions'', js_or questions (JArr []))] s)"
        by (simp add: store_generated_quiz_def split: prod.splits)
      then show ?thesis by blast
    qed
  qed
qed

lemma quizzes_generate_store:
  "fst (post_quizzes_generate w body s) = s
   \<or> (\<exists>subject difficulty quizData.
         fst (post_quizzes_generate w body s)
           = fst (store_generated_quiz w subject difficulty quizData s))"
  unfolding post_quizzes_generate_def Let_def
  by (simp split: sum.split) blast

lemma quizzes_dated_generate:
  assumes "quizzes_dated s"
  shows "quizzes_dated (fst (post_quizzes_generate w body s))"
proof -
  have "map_get [(''userId'', JStr DEFAULT_USER_ID), (''title'', t), (''subject'', sb),
                 (''difficulty'', d), (''questions'', q)] ''updatedAt'' = None" for t sb d q
    by (simp add: map_get_def)
  then show ?thesis
    using assms quizzes_generate_store [of w body s] store_generated_quiz_store
      quizzes_dated_createQuiz
    by metis
qed

subsection \<open>The listings\<close>

text \<open>
  Claim C7. In a store whose records carry their dates, each listing by owner returns
  normally, and what it returns is \<open>listed_recent_first\<close>: exactly the stored records
  whose \<open>userId\<close> is the given one, no record followed by one whose updated-or-created
  instant is later, records of equal instant in insertion order. The instant is read off
  the record (\<open>instant_of\<close>), not taken from the comparators.
\<close>

theorem list_by_owner_recent_first:
  assumes "store_dated s" and "quizzes_dated s"
  shows "(\<exists>rs. getUserConversations uid s = Inr rs
               \<and> listed_recent_first uid (conversations s) rs)
       \<and> (\<exists>rs. getUserFlashcardSets uid s = Inr rs
               \<and> listed_recent_first uid (flashcardSets s) rs)
       \<and> (\<exists>rs. getUserNotes uid s = Inr rs
               \<and> listed_recent_first uid (notesMap s) rs)
       \<and> (\<exists>rs. getUserQuizzes uid s = Inr rs
               \<and> listed_recent_first uid (quizzes s) rs)"
proof -
  have r: "\<forall>a \<in> set (map_values m). \<forall>b \<in> set (map_values m).
             by_recent_desc a b = Inr (instant_of b - instant_of a)"
    if "list_all (\<lambda>x. is_date (get_prop x ''updatedAt'')) (map_values m)" for m
    using that by (simp add: list_all_iff by_recent_desc_def recent_dated)
  have c: "\<forall>a \<in> set (map_values m). \<forall>b \<in> set (map_values m).
             by_created_desc a b = Inr (instant_of b - instant_of a)"
    if "list_all (\<lambda>x. is_date (get_prop x ''createdAt'') \<and> get_prop x ''updatedAt'' = Undefined)
          (map_values m)" for m
    using that by (simp add: list_all_iff by_created_desc_def created_dated)
  from assms show ?thesis
    unfolding store_dated_def quizzes_dated_def getUserConversations_def
      getUserFlashcardSets_def getUserNotes_def getUserQuizzes_def
    using listing_recent_first [where cmp = by_recent_desc, OF r]
      listing_recent_first [where cmp = by_created_desc, OF c]
    by blast
qed

text \<open>
  An example with ties and with quizzes: conversations updated at 30, 50 (another
  owner's), 40 and 30 are listed 40, 30, 30, the two of instant 30 in insertion order;
  quizzes created at 5, 9 and 7 are listed 9, 7, 5.
\<close>

theorem list_by_owner_witness:
  "store_dated sample_list_store \<and> quizzes_dated sample_list_store
   \<and> getUserConversations ''default-user'' sample_list_store
     = Inr [[(''userId'', JStr ''default-user''), (''title'', JStr ''third''),
             (''id'', JStr ''c3''), (''createdAt'', JDate 40), (''updatedAt'', JDate 40)],
            [(''userId'', JStr ''default-user''), (''title'', JStr ''first''),
             (''id'', JStr ''c1''), (''createdAt'', JDate 10), (''updatedAt'', JDate 30)],
            [(''userId'', JStr ''default-user''), (''title'', JStr ''fourth''),
             (''id'', JStr ''c4''), (''createdAt'', JDate 30), (''updatedAt'', JDate 30)]]
   \<and> listed_recent_first ''default-user'' (conversations sample_list_store)
         [[(''userId'', JStr ''default-user''), (''title'', JStr ''third''),
             (''id'', JStr ''c3''), (''createdAt'', JDate 40), (''updatedAt'', JDate 40)],
            [(''userId'', JStr ''default-user''), (''title'', JStr ''first''),
             (''id'', JStr ''c1''), (''createdAt'', JDate 10), (''updatedAt'', JDate 30)],
            [(''userId'', JStr ''default-user''), (''title'', JStr ''fourth''),
             (''id'', JStr ''c4''), (''createdAt'', JDate 30), (''updatedAt'', JDate 30)]]
   \<and> getUserQuizzes ''default-user'' sample_list_store
     = Inr [[(''userId'', JStr ''default-user''), (''title'', JStr ''two''),
             (''questions'', JArr []), (''id'', JStr ''q2''), (''createdAt'', JDate 9)],
            [(''userId'', JStr ''default-user''), (''title'', JStr ''three''),
             (''questions'', JArr []), (''id'', JStr ''q3''), (''createdAt'', JDate 7)],
            [(''userId'', JStr ''default-user''), (''title'', JStr ''one''),
             (''questions'', JArr []), (''id'', JStr ''q1''), (''createdAt'', JDate 5)]]
   \<and> listed_recent_first ''default-user'' (quizzes sample_list_store)
         [[(''userId'', JStr ''default-user''), (''title'', JStr ''two''),
             (''questions'', JArr []), (''id'', JStr ''q2''), (''createdAt'', JDate 9)],
            [(''userId'', JStr ''default-user''), (''title'', JStr ''three''),
             (''questions'', JArr []), (''id'', JStr ''q3''), (''createdAt'', JDate 7)],
            [(''userId'', JStr ''default-user''), (''title'', JStr ''one''),
             (''questions'', JArr []), (''id'', JStr ''q1''), (''createdAt'', JDate 5)]]"
proof -
  have d: "store_dated sample_list_store"
    by (simp add: store_dated_def sample_list_store_def MemStorage_def map_values_def
          is_date_def)
  have q: "quizzes_dated sample_list_store"
    by (simp add: quizzes_dated_def sample_list_store_def MemStorage_def map_values_def
          is_date_def)
  have run: "getUserConversations ''default-user'' sample_list_store
     = Inr [[(''userId'', JStr ''default-user''), (''title'', JStr ''third''),
             (''id'', JStr ''c3''), (''createdAt'', JDate 40), (''updatedAt'', JDate 40)],
            [(''userId'', JStr ''default-user''), (''title'', JStr ''first''),
             (''id'', JStr ''c1''), (''createdAt'', JDate 10), (''updatedAt'', JDate 30)],
            [(''userId'', JStr ''default-user''), (''title'', JStr ''fourth''),
             (''id'', JStr ''c4''), (''createdAt'', JDate 30), (''updatedAt'', JDate 30)]]"
    by (simp add: getUserConversations_def sample_list_store_def map_values_def
          by_recent_desc_def recent_def getTime_def js_or_def)
  have runq: "getUserQuizzes ''default-user'' sample_list_store
     = Inr [[(''userId'', JStr ''default-user''), (''title'', JStr ''two''),
             (''questions'', JArr []), (''id'', JStr ''q2''), (''createdAt'', JDate 9)],
            [(''userId'', JStr ''default-user''), (''title'', JStr ''three''),
             (''questions'', JArr []), (''id'', JStr ''q3''), (''createdAt'', JDate 7)],
            [(''userId'', JStr ''default-user''), (''title'', JStr ''one''),
             (''questions'', JArr []), (''id'', JStr ''q1''), (''createdAt'', JDate 5)]]"
    by (simp add: getUserQuizzes_def sample_list_store_def map_values_def
          by_created_desc_def created_def getTime_def)
  from list_by_owner_recent_first [OF d q, of "''default-user''"]
  obtain rs qs where "getUserConversations ''default-user'' sample_list_store = Inr rs"
    and "listed_recent_first ''default-user'' (conversations sample_list_store) rs"
    and "getUserQuizzes ''default-user'' sample_list_store = Inr qs"
    and "listed_recent_first ''default-user'' (quizzes sample_list_store) qs"
    by blast
  with run runq d q show ?thesis by simp
qed

section \<open>Quiz scoring\<close>

lemma score_answers_array:
  "score_answers (JArr qs) rest index score
     = Inr (score + int (length (filter
              (\<lambda>p. snd p < length qs \<and> truthy (qs ! snd p) \<and>
                   (case js_member (qs ! snd p) ''correctAnswer'' of
                      Inl e \<Rightarrow> False
                    | Inr correctAnswer \<Rightarrow> strict_eq (fst p) correctAnswer))
              (zip rest [index..<index + length rest]))))"
proof (induction rest arbitrary: index score)
  case Nil
  show ?case by simp
next
  case (Cons answer rest)
  have range: "[index..<index + length (answer # rest)] = index # [Suc index..<Suc index + length rest]"
    using upt_conv_Cons [of index "index + length (answer # rest)"] by simp
  show ?case
  proof (cases "index < length qs \<and> truthy (qs ! index)")
    case True
    then obtain ca where ca: "js_member (qs ! index) ''correctAnswer'' = Inr ca"
      using js_member_truthy by blast
    with True show ?thesis
      unfolding range by (simp add: js_index_def Cons.IH)
  next
    case False
    then show ?thesis
      unfolding range by (auto simp: js_index_def Cons.IH)
  qed
qed

lemma zip_indices: "zip xs [0..<length xs] = map (\<lambda>i. (xs ! i, i)) [0..<length xs]"
  by (rule nth_equalityI) auto

lemma score_answers_count:
  assumes "length as = length qs"
  shows "score_answers (JArr qs) as 0 0
           = Inr (int (length (filter (correct_at qs as) [0..<length qs])))"
proof -
  have "filter (\<lambda>p. snd p < length qs \<and> truthy (qs ! snd p) \<and>
                   (case js_member (qs ! snd p) ''correctAnswer'' of
                      Inl e \<Rightarrow> False
                    | Inr correctAnswer \<Rightarrow> strict_eq (fst p) correctAnswer))
          (map (\<lambda>i. (as ! i, i)) [0..<length as])
        = map (\<lambda>i. (as ! i, i)) (filter (correct_at qs as) [0..<length as])"
    unfolding filter_map
    by (rule arg_cong [where f = "map (\<lambda>i. (as ! i, i))"], rule filter_cong)
       (auto simp: correct_at_def assms split: sum.splits)
  then show ?thesis
    using score_answers_array [of qs as 0 0] zip_indices [of as] assms by simp
qed

text \<open>
  Claim C1, as amended. For a stored quiz whose \<open>questions\<close> is an array of length \<open>N\<close>
  and a submitted array of \<open>N\<close> answers, the handler stores and returns (status 200) an
  attempt whose \<open>totalQuestions\<close> is \<open>N\<close> and whose \<open>score\<close> is the number of positions
  \<open>i < N\<close> where the question is truthy and \<open>answers[i] === questions[i].correctAnswer\<close>:
  equal numbers, strings, booleans or \<open>null\<close>. An array or object answer never counts.
\<close>

theorem quiz_attempt_score:
  assumes "getQuiz i s = Some quiz"
    and "get_prop quiz ''questions'' = JArr qs"
    and "js_member body ''answers'' = Inr (JArr as)"
    and "length as = length qs"
  shows "post_quiz_attempts w i body s
           = (s\<lparr>quizAttempts := map_set (uuid1 w)
                   [(''quizId'', JStr i), (''userId'', JStr ''default-user''),
                    (''answers'', JArr as),
                    (''score'', JNum (int (length (filter (correct_at qs as) [0..<length qs])))),
                    (''totalQuestions'', JNum (int (length qs))),
                    (''id'', JStr (uuid1 w)), (''completedAt'', JDate (now1 w))]
                   (quizAttempts s)\<rparr>,
              (200, JObj
                   [(''quizId'', JStr i), (''userId'', JStr ''default-user''),
                    (''answers'', JArr as),
                    (''score'', JNum (int (length (filter (correct_at qs as) [0..<length qs])))),
                    (''totalQuestions'', JNum (int (length qs))),
                    (''id'', JStr (uuid1 w)), (''completedAt'', JDate (now1 w))]))"
  using assms
  by (simp add: post_quiz_attempts_def score_answers_count js_member_def createQuizAttempt_def
        spread_def Let_def DEFAULT_USER_ID_def)

text \<open>The example of the specification: correct answers \<open>[0,1,2]\<close>, submitted
  \<open>[0,1,1]\<close>, score 2 of 3.\<close>

theorem quiz_attempt_score_witness:
  "post_quiz_attempts sample_world ''quiz-1'' (JObj [(''answers'', JArr [JNum 0, JNum 1, JNum 1])])
       sample_quiz_store
     = (sample_quiz_store\<lparr>quizAttempts :=
          [(''id-1'', [(''quizId'', JStr ''quiz-1''), (''userId'', JStr ''default-user''),
                      (''answers'', JArr [JNum 0, JNum 1, JNum 1]),
                      (''score'', JNum 2), (''totalQuestions'', JNum 3),
                      (''id'', JStr ''id-1''), (''completedAt'', JDate 1000)])]\<rparr>,
        (200, JObj [(''quizId'', JStr ''quiz-1''), (''userId'', JStr ''default-user''),
                      (''answers'', JArr [JNum 0, JNum 1, JNum 1]),
                      (''score'', JNum 2), (''totalQuestions'', JNum 3),
                      (''id'', JStr ''id-1''), (''completedAt'', JDate 1000)]))"
proof -
  let ?qs = "[sample_question 0, sample_question 1, sample_question 2]"
  let ?as = "[JNum 0, JNum 1, JNum 1]"
  have q: "getQuiz ''quiz-1'' sample_quiz_store
             = Some [(''userId'', JStr ''default-user''), (''title'', JStr ''Sample Quiz''),
                      (''subject'', JStr ''Sample''), (''difficulty'', JStr ''easy''),
                      (''questions'', JArr ?qs),
                      (''id'', JStr ''quiz-1''), (''createdAt'', JDate 10)]"
    by (simp add: getQuiz_def sample_quiz_store_def map_get_def)
  have g: "get_prop [(''userId'', JStr ''default-user''), (''title'', JStr ''Sample Quiz''),
                      (''subject'', JStr ''Sample''), (''difficulty'', JStr ''easy''),
                      (''questions'', JArr ?qs),
                      (''id'', JStr ''quiz-1''), (''createdAt'', JDate 10)] ''questions'' = JArr ?qs"
    by simp
  have b: "js_member (JObj [(''answers'', JArr ?as)]) ''answers'' = Inr (JArr ?as)"
    by simp
  have l: "length ?as = length ?qs"
    by simp
  have n: "length (filter (correct_at ?qs ?as) [0..<length ?qs]) = 2"
    by (simp add: correct_at_def sample_question_def upt_rec)
  have a: "quizAttempts sample_quiz_store = []"
    by (simp add: sample_quiz_store_def MemStorage_def)
  have th: "post_quiz_attempts sample_world ''quiz-1'' (JObj [(''answers'', JArr ?as)]) sample_quiz_store
     = (sample_quiz_store\<lparr>quizAttempts := map_set (uuid1 sample_world)
                   [(''quizId'', JStr ''quiz-1''), (''userId'', JStr ''default-user''),
                    (''answers'', JArr ?as),
                    (''score'', JNum (int (length (filter (correct_at ?qs ?as) [0..<length ?qs])))),
                    (''totalQuestions'', JNum (int (length ?qs))),
                    (''id'', JStr (uuid1 sample_world)), (''completedAt'', JDate (now1 sample_world))]
                   (quizAttempts sample_quiz_store)\<rparr>,
              (200, JObj
                   [(''quizId'', JStr ''quiz-1''), (''userId'', JStr ''default-user''),
                    (''answers'', JArr ?as),
                    (''score'', JNum (int (length (filter (correct_at ?qs ?as) [0..<length ?qs])))),
                    (''totalQuestions'', JNum (int (length ?qs))),
                    (''id'', JStr (uuid1 sample_world)), (''completedAt'', JDate (now1 sample_world))]))"
    by (rule quiz_attempt_score [OF q g b l])
  show ?thesis
    unfolding th n a by (simp add: sample_world_simps)
qed

text \<open>
  Claim C1 as stated counts the positions where the answer equals the stored correct
  answer. Quiz \<open>quiz-2\<close> has one question, multi-select, whose stored correct answer is
  the array \<open>[0]\<close>. The submitted answers are \<open>[[0]]\<close>: the one answer equals the stored
  correct answer, yet the attempt has score 0 of 1.
\<close>

theorem quiz_attempt_deep_equal_counterexample:
  "js_member multi_question ''correctAnswer'' = Inr (JArr [JNum 0])
   \<and> post_quiz_attempts sample_world ''quiz-2'' (JObj [(''answers'', JArr [JArr [JNum 0]])])
       sample_quiz_store
     = (sample_quiz_store\<lparr>quizAttempts :=
          [(''id-1'', [(''quizId'', JStr ''quiz-2''), (''userId'', JStr ''default-user''),
                      (''answers'', JArr [JArr [JNum 0]]),
                      (''score'', JNum 0), (''totalQuestions'', JNum 1),
                      (''id'', JStr ''id-1''), (''completedAt'', JDate 1000)])]\<rparr>,
        (200, JObj [(''quizId'', JStr ''quiz-2''), (''userId'', JStr ''default-user''),
                      (''answers'', JArr [JArr [JNum 0]]),
                      (''score'', JNum 0), (''totalQuestions'', JNum 1),
                      (''id'', JStr ''id-1''), (''completedAt'', JDate 1000)]))"
  by (simp add: post_quiz_attempts_def getQuiz_def sample_quiz_store_def map_get_def
        multi_question_def js_index_def js_member_def createQuizAttempt_def spread_def
        Let_def DEFAULT_USER_ID_def sample_world_simps MemStorage_def)

section \<open>The chat relay\<close>

lemma ws_on_message_chat:
  assumes "JSON_parse w data = Inr (JObj fs)" and "get_prop fs ''type'' = JStr ''chat_message''"
  shows "ws_on_message w data r = chat_message w fs r"
  using assms by (simp add: ws_on_message_def)

lemma createMessage_relay:
  "createMessage uuid now [(''conversationId'', c), (''role'', JStr ro), (''content'', t), (''attachments'', JNull)] s
     = (s\<lparr>messages := map_set uuid
            [(''conversationId'', c), (''role'', JStr ro), (''content'', t), (''attachments'', JNull),
             (''id'', JStr uuid), (''createdAt'', JDate now)] (messages s)\<rparr>,
        [(''conversationId'', c), (''role'', JStr ro), (''content'', t), (''attachments'', JNull),
             (''id'', JStr uuid), (''createdAt'', JDate now)])"
  by (simp add: createMessage_def spread_def Let_def)

lemma prefix_gpt_not_claude: "prefix ''gpt'' m \<Longrightarrow> \<not> prefix ''claude'' m"
  by (auto simp: prefix_def)

text \<open>
  Claim C8. A frame that \<open>JSON.parse\<close> rejects, and a frame that parses to a value
  whose \<open>type\<close> is not the string \<open>chat_message\<close> (a parsed \<open>null\<close>, whose \<open>type\<close>
  cannot even be read, included), leaves the relay as it was: the store, the frames sent
  on the socket and the provider calls are the same.
\<close>

theorem ignored_frames_change_nothing:
  assumes "case JSON_parse w data of
             Inl e \<Rightarrow> True
           | Inr v \<Rightarrow> js_member v ''type'' \<noteq> Inr (JStr ''chat_message'')"
  shows "ws_on_message w data r = r"
proof (cases "JSON_parse w data")
  case (Inl e)
  then show ?thesis by (simp add: ws_on_message_def)
next
  case (Inr v)
  with assms have ne: "js_member v ''type'' \<noteq> Inr (JStr ''chat_message'')" by simp
  show ?thesis
  proof (cases "js_member v ''type''")
    case (Inl e)
    with Inr show ?thesis by (simp add: ws_on_message_def)
  next
    case t: (Inr t)
    with ne have "\<not> strict_eq t (JStr ''chat_message'')" by (simp add: strict_eq_JStr)
    with Inr t show ?thesis by (simp add: ws_on_message_def)
  qed
qed

theorem ignored_frames_witness:
  "ws_on_message sample_world ''{\"type\":'' sample_relay = sample_relay
   \<and> ws_on_message sample_world ''{\"type\":\"ping\"}'' sample_relay = sample_relay
   \<and> ws_on_message sample_world ''null'' sample_relay = sample_relay"
proof -
  have a: "ws_on_message sample_world ''{\"type\":'' sample_relay = sample_relay"
    by (rule ignored_frames_change_nothing)
       (simp add: sample_world_def sample_parse_def gpt_frame_text_def gemini_frame_text_def
          claude_frame_text_def number_frame_text_def)
  have b: "ws_on_message sample_world ''{\"type\":\"ping\"}'' sample_relay = sample_relay"
    by (rule ignored_frames_change_nothing)
       (simp add: sample_world_def sample_parse_def gpt_frame_text_def gemini_frame_text_def
          claude_frame_text_def number_frame_text_def)
  have c: "ws_on_message sample_world ''null'' sample_relay = sample_relay"
    by (rule ignored_frames_change_nothing) (simp add: sample_world_def sample_parse_def js_member_def)
  from a b c show ?thesis by simp
qed

text \<open>
  Claim C2. For a \<open>chat_message\<close> frame whose model selects a provider, when that
  provider's call throws \<open>e\<close> the socket receives the typing indicator and then the
  frame \<open>{type: "error", message: "Failed to get AI response: " + e.message}\<close>, and the
  store differs from the one before in exactly one write: the user's message under its
  fresh identifier. No second message (the assistant's) is written and nothing is rolled
  back.
\<close>

theorem provider_failure_keeps_user_message:
  assumes "JSON_parse w data = Inr (JObj fs)"
    and "get_prop fs ''type'' = JStr ''chat_message''"
    and "get_prop fs ''model'' = JStr m"
    and "(prefix ''gpt'' m \<and> openai_reply w = Inl e)
         \<or> (prefix ''claude'' m \<and> anthropic_reply w = Inl e)"
  shows "sent (ws_on_message w data r)
           = sent r @ [typing_frame True,
                       JObj [(''type'', JStr ''error''),
                             (''message'', JStr (''Failed to get AI response: '' @ exn_message e))]]
         \<and> storage (ws_on_message w data r)
           = (storage r)\<lparr>messages :=
                map_set (uuid1 w)
                  [(''conversationId'', get_prop fs ''conversationId''), (''role'', JStr ''user''),
                   (''content'', get_prop fs ''content''), (''attachments'', JNull),
                   (''id'', JStr (uuid1 w)), (''createdAt'', JDate (now1 w))]
                  (messages (storage r))\<rparr>"
proof -
  have run: "ws_on_message w data r = chat_message w fs r"
    using assms(1,2) by (rule ws_on_message_chat)
  from assms(4) have "snd (ai_response w (JStr m) (get_prop fs ''content'')) = Inl e"
    by (auto simp: ai_response_def dest: prefix_gpt_not_claude)
  then obtain called where
    "ai_response w (JStr m) (get_prop fs ''content'') = (called, Inl e)"
    by (cases "ai_response w (JStr m) (get_prop fs ''content'')") simp
  then show ?thesis
    using assms(3)
    by (simp add: run chat_message_def Let_def createMessage_relay error_frame_def)
qed

theorem provider_failure_witness:
  "sent (ws_on_message sample_world gpt_frame_text sample_relay)
     = [JObj [(''type'', JStr ''typing''), (''isTyping'', JBool True)],
        JObj [(''type'', JStr ''error''),
              (''message'', JStr ''Failed to get AI response: 429 rate limit'')]]
   \<and> messages (storage (ws_on_message sample_world gpt_frame_text sample_relay))
     = [(''id-1'', [(''conversationId'', JStr ''c1''), (''role'', JStr ''user''),
                    (''content'', JStr ''hello''), (''attachments'', JNull),
                    (''id'', JStr ''id-1''), (''createdAt'', JDate 1000)])]"
proof -
  have p: "JSON_parse sample_world gpt_frame_text = Inr (JObj gpt_frame)"
    by (simp add: sample_world_simps sample_parse_frames)
  have t: "get_prop gpt_frame ''type'' = JStr ''chat_message''"
    and m: "get_prop gpt_frame ''model'' = JStr ''gpt-5''"
    by (simp_all add: gpt_frame_def)
  have f: "(prefix ''gpt'' ''gpt-5'' \<and> openai_reply sample_world = Inl (Error ''429 rate limit''))
           \<or> (prefix ''claude'' ''gpt-5'' \<and> anthropic_reply sample_world = Inl (Error ''429 rate limit''))"
    by (simp add: sample_world_simps)
  from provider_failure_keeps_user_message [OF p t m f, of sample_relay]
  show ?thesis
    by (simp add: sample_world_simps sample_relay_simps MemStorage_def typing_frame_def
          gpt_frame_def)
qed

text \<open>
  A frame with a model string: the three cases of the prefix test.
\<close>

lemma model_string_cases:
  assumes "JSON_parse w data = Inr (JObj fs)"
    and "get_prop fs ''type'' = JStr ''chat_message''"
    and "get_prop fs ''model'' = JStr m"
  shows "(prefix ''gpt'' m \<longrightarrow>
            calls (ws_on_message w data r)
              = calls r @ [(OpenAI, openai_request (get_prop fs ''content''))])
       \<and> (prefix ''claude'' m \<longrightarrow>
            calls (ws_on_message w data r)
              = calls r @ [(Anthropic, anthropic_request (get_prop fs ''content''))])
       \<and> (\<not> prefix ''gpt'' m \<and> \<not> prefix ''claude'' m \<longrightarrow>
            calls (ws_on_message w data r) = calls r
            \<and> messages (storage (ws_on_message w data r))
                = map_set (uuid2 w)
                    [(''conversationId'', get_prop fs ''conversationId''),
                     (''role'', JStr ''assistant''),
                     (''content'', JStr ''Model not supported''), (''attachments'', JNull),
                     (''id'', JStr (uuid2 w)), (''createdAt'', JDate (now2 w))]
                    (map_set (uuid1 w)
                       [(''conversationId'', get_prop fs ''conversationId''),
                        (''role'', JStr ''user''),
                        (''content'', get_prop fs ''content''), (''attachments'', JNull),
                        (''id'', JStr (uuid1 w)), (''createdAt'', JDate (now1 w))]
                       (messages (storage r)))
            \<and> sent (ws_on_message w data r)
                = sent r @ [typing_frame True, typing_frame False,
                     JObj [(''type'', JStr ''message''),
                           (''message'', JObj
                              [(''conversationId'', get_prop fs ''conversationId''),
                               (''role'', JStr ''assistant''),
                               (''content'', JStr ''Model not supported''),
                               (''attachments'', JNull),
                               (''id'', JStr (uuid2 w)), (''createdAt'', JDate (now2 w))])]])"
proof -
  have run: "ws_on_message w data r = chat_message w fs r"
    using assms(1,2) by (rule ws_on_message_chat)
  have gpt: "prefix ''gpt'' m \<Longrightarrow>
      calls (chat_message w fs r) = calls r @ [(OpenAI, openai_request (get_prop fs ''content''))]"
    using assms(3)
    by (simp add: chat_message_def Let_def ai_response_def createMessage_relay
          split: sum.splits)
  have claude: "prefix ''claude'' m \<Longrightarrow>
      calls (chat_message w fs r)
        = calls r @ [(Anthropic, anthropic_request (get_prop fs ''content''))]"
    using assms(3) prefix_gpt_not_claude [of m]
    by (auto simp: chat_message_def Let_def ai_response_def createMessage_relay
          split: sum.splits)
  have other: "\<not> prefix ''gpt'' m \<Longrightarrow> \<not> prefix ''claude'' m \<Longrightarrow>
      chat_message w fs r
        = r\<lparr>storage := (storage r)\<lparr>messages :=
                map_set (uuid2 w)
                    [(''conversationId'', get_prop fs ''conversationId''),
                     (''role'', JStr ''assistant''),
                     (''content'', JStr ''Model not supported''), (''attachments'', JNull),
                     (''id'', JStr (uuid2 w)), (''createdAt'', JDate (now2 w))]
                    (map_set (uuid1 w)
                       [(''conversationId'', get_prop fs ''conversationId''),
                        (''role'', JStr ''user''),
                        (''content'', get_prop fs ''content''), (''attachments'', JNull),
                        (''id'', JStr (uuid1 w)), (''createdAt'', JDate (now1 w))]
                       (messages (storage r)))\<rparr>,
             sent := sent r @ [typing_frame True, typing_frame False,
                     message_frame
                              [(''conversationId'', get_prop fs ''conversationId''),
                               (''role'', JStr ''assistant''),
                               (''content'', JStr ''Model not supported''),
                               (''attachments'', JNull),
                               (''id'', JStr (uuid2 w)), (''createdAt'', JDate (now2 w))]]\<rparr>"
    using assms(3)
    by (simp add: chat_message_def Let_def ai_response_def createMessage_relay)
  show ?thesis
    using gpt claude other by (simp add: run message_frame_def)
qed

text \<open>
  A frame whose \<open>model\<close> is missing or not a string is outside the three cases:
  \<open>model.startsWith\<close> throws inside the inner \<open>try\<close>, no provider is called, only the
  user's message is stored and the socket receives an error frame.
\<close>

lemma non_string_model_is_an_error:
  assumes "JSON_parse w data = Inr (JObj fs)"
    and "get_prop fs ''type'' = JStr ''chat_message''"
    and "\<forall>m. get_prop fs ''model'' \<noteq> JStr m"
  shows "calls (ws_on_message w data r) = calls r
         \<and> messages (storage (ws_on_message w data r))
             = map_set (uuid1 w)
                 [(''conversationId'', get_prop fs ''conversationId''),
                  (''role'', JStr ''user''),
                  (''content'', get_prop fs ''content''), (''attachments'', JNull),
                  (''id'', JStr (uuid1 w)), (''createdAt'', JDate (now1 w))]
                 (messages (storage r))
         \<and> sent (ws_on_message w data r)
             = sent r @ [typing_frame True,
                         error_frame (TypeError (startsWith_error w (get_prop fs ''model'')))]"
proof -
  have run: "ws_on_message w data r = chat_message w fs r"
    using assms(1,2) by (rule ws_on_message_chat)
  from assms(3) have "ai_response w (get_prop fs ''model'') (get_prop fs ''content'')
      = ([], Inl (TypeError (startsWith_error w (get_prop fs ''model''))))"
    by (cases "get_prop fs ''model''") (simp_all add: ai_response_def)
  then show ?thesis
    by (simp add: run chat_message_def Let_def createMessage_relay)
qed

text \<open>
  Claim C3, as amended. For a \<open>chat_message\<close> frame whose \<open>model\<close> is a string: a model
  starting with \<open>gpt\<close> makes exactly one provider call, to OpenAI; one starting with
  \<open>claude\<close> exactly one, to Anthropic; any other model string makes no call, and the
  literal reply \<open>Model not supported\<close> is stored as an \<open>assistant\<close> message and delivered
  in a \<open>{type: "message"}\<close> frame after the two typing indicators, with no error frame.
  For a \<open>chat_message\<close> frame whose \<open>model\<close> is missing or is not a string, no provider is
  called, the user's message is the only one stored, and the frame sent after the typing
  indicator is \<open>{type: "error"}\<close> with the message of the \<open>TypeError\<close>.
\<close>

theorem provider_chosen_by_model_prefix:
  assumes "JSON_parse w data = Inr (JObj fs)"
    and "get_prop fs ''type'' = JStr ''chat_message''"
  shows "(\<forall>m. get_prop fs ''model'' = JStr m \<longrightarrow>
          (prefix ''gpt'' m \<longrightarrow>
            calls (ws_on_message w data r)
              = calls r @ [(OpenAI, openai_request (get_prop fs ''content''))])
       \<and> (prefix ''claude'' m \<longrightarrow>
            calls (ws_on_message w data r)
              = calls r @ [(Anthropic, anthropic_request (get_prop fs ''content''))])
       \<and> (\<not> prefix ''gpt'' m \<and> \<not> prefix ''claude'' m \<longrightarrow>
            calls (ws_on_message w data r) = calls r
            \<and> messages (storage (ws_on_message w data r))
                = map_set (uuid2 w)
                    [(''conversationId'', get_prop fs ''conversationId''),
                     (''role'', JStr ''assistant''),
                     (''content'', JStr ''Model not supported''), (''attachments'', JNull),
                     (''id'', JStr (uuid2 w)), (''createdAt'', JDate (now2 w))]
                    (map_set (uuid1 w)
                       [(''conversationId'', get_prop fs ''conversationId''),
                        (''role'', JStr ''user''),
                        (''content'', get_prop fs ''content''), (''attachments'', JNull),
                        (''id'', JStr (uuid1 w)), (''createdAt'', JDate (now1 w))]
                       (messages (storage r)))
            \<and> sent (ws_on_message w data r)
                = sent r @ [typing_frame True, typing_frame False,
                     JObj [(''type'', JStr ''message''),
                           (''message'', JObj
                              [(''conversationId'', get_prop fs ''conversationId''),
                               (''role'', JStr ''assistant''),
                               (''content'', JStr ''Model not supported''),
                               (''attachments'', JNull),
                               (''id'', JStr (uuid2 w)), (''createdAt'', JDate (now2 w))])]]))
       \<and> ((\<forall>m. get_prop fs ''model'' \<noteq> JStr m) \<longrightarrow>
            calls (ws_on_message w data r) = calls r
            \<and> messages (storage (ws_on_message w data r))
                = map_set (uuid1 w)
                    [(''conversationId'', get_prop fs ''conversationId''),
                     (''role'', JStr ''user''),
                     (''content'', get_prop fs ''content''), (''attachments'', JNull),
                     (''id'', JStr (uuid1 w)), (''createdAt'', JDate (now1 w))]
                    (messages (storage r))
            \<and> sent (ws_on_message w data r)
                = sent r @ [typing_frame True,
                     JObj [(''type'', JStr ''error''),
                           (''message'', JStr (''Failed to get AI response: ''
                               @ startsWith_error w (get_prop fs ''model'')))]])"
proof (rule conjI, rule allI, rule impI)
  fix m
  assume "get_prop fs ''model'' = JStr m"
  from model_string_cases [OF assms this, of r]
  show "(prefix ''gpt'' m \<longrightarrow>
            calls (ws_on_message w data r)
              = calls r @ [(OpenAI, openai_request (get_prop fs ''content''))])
       \<and> (prefix ''claude'' m \<longrightarrow>
            calls (ws_on_message w data r)
              = calls r @ [(Anthropic, anthropic_request (get_prop fs ''content''))])
       \<and> (\<not> prefix ''gpt'' m \<and> \<not> prefix ''claude'' m \<longrightarrow>
            calls (ws_on_message w data r) = calls r
            \<and> messages (storage (ws_on_message w data r))
                = map_set (uuid2 w)
                    [(''conversationId'', get_prop fs ''conversationId''),
                     (''role'', JStr ''assistant''),
                     (''content'', JStr ''Model not supported''), (''attachments'', JNull),
                     (''id'', JStr (uuid2 w)), (''createdAt'', JDate (now2 w))]
                    (map_set (uuid1 w)
                       [(''conversationId'', get_prop fs ''conversationId''),
                        (''role'', JStr ''user''),
                        (''content'', get_prop fs ''content''), (''attachments'', JNull),
                        (''id'', JStr (uuid1 w)), (''createdAt'', JDate (now1 w))]
                       (messages (storage r)))
            \<and> sent (ws_on_message w data r)
                = sent r @ [typing_frame True, typing_frame False,
                     JObj [(''type'', JStr ''message''),
                           (''message'', JObj
                              [(''conversationId'', get_prop fs ''conversationId''),
                               (''role'', JStr ''assistant''),
                               (''content'', JStr ''Model not supported''),
                               (''attachments'', JNull),
                               (''id'', JStr (uuid2 w)), (''createdAt'', JDate (now2 w))])]])" .
next
  show "(\<forall>m. get_prop fs ''model'' \<noteq> JStr m) \<longrightarrow>
            calls (ws_on_message w data r) = calls r
            \<and> messages (storage (ws_on_message w data r))
                = map_set (uuid1 w)
                    [(''conversationId'', get_prop fs ''conversationId''),
                     (''role'', JStr ''user''),
                     (''content'', get_prop fs ''content''), (''attachments'', JNull),
                     (''id'', JStr (uuid1 w)), (''createdAt'', JDate (now1 w))]
                    (messages (storage r))
            \<and> sent (ws_on_message w data r)
                = sent r @ [typing_frame True,
                     JObj [(''type'', JStr ''error''),
                           (''message'', JStr (''Failed to get AI response: ''
                               @ startsWith_error w (get_prop fs ''model'')))]]"
    using non_string_model_is_an_error [OF assms, of r]
    by (simp add: error_frame_def)
qed

text \<open>
  An example: the same frame sent with the models \<open>gpt-5\<close>, \<open>claude-3\<close>, \<open>gemini-pro\<close> and
  the number 5.
\<close>

theorem provider_choice_witness:
  "calls (ws_on_message sample_world gpt_frame_text sample_relay)
     = [(OpenAI, JObj [(''model'', JStr ''gpt-5''),
           (''messages'', JArr [JObj [(''role'', JStr ''user''), (''content'', JStr ''hello'')]])])]
   \<and> calls (ws_on_message sample_world claude_frame_text sample_relay)
     = [(Anthropic, JObj [(''model'', JStr ''claude-sonnet-4-20250514''), (''max_tokens'', JNum 1024),
           (''messages'', JArr [JObj [(''role'', JStr ''user''), (''content'', JStr ''hello'')]])])]
   \<and> calls (ws_on_message sample_world gemini_frame_text sample_relay) = []
   \<and> messages (storage (ws_on_message sample_world gemini_frame_text sample_relay))
     = [(''id-1'', [(''conversationId'', JStr ''c1''), (''role'', JStr ''user''),
             (''content'', JStr ''hello''), (''attachments'', JNull),
             (''id'', JStr ''id-1''), (''createdAt'', JDate 1000)]),
        (''id-2'', [(''conversationId'', JStr ''c1''), (''role'', JStr ''assistant''),
             (''content'', JStr ''Model not supported''), (''attachments'', JNull),
             (''id'', JStr ''id-2''), (''createdAt'', JDate 2000)])]
   \<and> sent (ws_on_message sample_world gemini_frame_text sample_relay)
     = [JObj [(''type'', JStr ''typing''), (''isTyping'', JBool True)],
        JObj [(''type'', JStr ''typing''), (''isTyping'', JBool False)],
        JObj [(''type'', JStr ''message''),
              (''message'', JObj [(''conversationId'', JStr ''c1''), (''role'', JStr ''assistant''),
                 (''content'', JStr ''Model not supported''), (''attachments'', JNull),
                 (''id'', JStr ''id-2''), (''createdAt'', JDate 2000)])]]
   \<and> calls (ws_on_message sample_world number_frame_text sample_relay) = []
   \<and> messages (storage (ws_on_message sample_world number_frame_text sample_relay))
     = [(''id-1'', [(''conversationId'', JStr ''c1''), (''role'', JStr ''user''),
             (''content'', JStr ''hello''), (''attachments'', JNull),
             (''id'', JStr ''id-1''), (''createdAt'', JDate 1000)])]
   \<and> sent (ws_on_message sample_world number_frame_text sample_relay)
     = [JObj [(''type'', JStr ''typing''), (''isTyping'', JBool True)],
        JObj [(''type'', JStr ''error''),
              (''message'', JStr ''Failed to get AI response: model.startsWith is not a function'')]]"
proof -
  have p1: "JSON_parse sample_world gpt_frame_text = Inr (JObj gpt_frame)"
    and p2: "JSON_parse sample_world claude_frame_text = Inr (JObj claude_frame)"
    and p3: "JSON_parse sample_world gemini_frame_text = Inr (JObj gemini_frame)"
    and p4: "JSON_parse sample_world number_frame_text = Inr (JObj number_frame)"
    by (simp_all add: sample_world_simps sample_parse_frames)
  have t1: "get_prop gpt_frame ''type'' = JStr ''chat_message''"
    and m1: "get_prop gpt_frame ''model'' = JStr ''gpt-5''"
    by (simp_all add: gpt_frame_def)
  have t2: "get_prop claude_frame ''type'' = JStr ''chat_message''"
    and m2: "get_prop claude_frame ''model'' = JStr ''claude-3''"
    by (simp_all add: claude_frame_def)
  have t3: "get_prop gemini_frame ''type'' = JStr ''chat_message''"
    and m3: "get_prop gemini_frame ''model'' = JStr ''gemini-pro''"
    by (simp_all add: gemini_frame_def)
  have t4: "get_prop number_frame ''type'' = JStr ''chat_message''"
    and m4: "get_prop number_frame ''model'' = JNum 5"
    by (simp_all add: number_frame_def)
  from provider_chosen_by_model_prefix [OF p1 t1, of sample_relay]
       provider_chosen_by_model_prefix [OF p2 t2, of sample_relay]
       provider_chosen_by_model_prefix [OF p3 t3, of sample_relay]
       provider_chosen_by_model_prefix [OF p4 t4, of sample_relay]
  show ?thesis
    by (simp add: m1 m2 m3 m4 sample_world_simps sample_world_startsWith sample_relay_simps
          MemStorage_def typing_frame_def
          openai_request_def anthropic_request_def DEFAULT_OPENAI_MODEL_def
          DEFAULT_ANTHROPIC_MODEL_def gpt_frame_def claude_frame_def gemini_frame_def
          number_frame_def)
qed

text \<open>
  Claim C3 as stated sends every model that starts with neither prefix to the reply
  \<open>Model not supported\<close>. A frame whose model is the number 5 gets an error frame
  instead, and no assistant message is stored.
\<close>

theorem model_not_a_string_counterexample:
  "sent (ws_on_message sample_world number_frame_text sample_relay)
     = [JObj [(''type'', JStr ''typing''), (''isTyping'', JBool True)],
        JObj [(''type'', JStr ''error''),
              (''message'', JStr ''Failed to get AI response: model.startsWith is not a function'')]]
   \<and> map_values (messages (storage (ws_on_message sample_world number_frame_text sample_relay)))
     = [[(''conversationId'', JStr ''c1''), (''role'', JStr ''user''),
         (''content'', JStr ''hello''), (''attachments'', JNull),
         (''id'', JStr ''id-1''), (''createdAt'', JDate 1000)]]"
  by (simp add: ws_on_message_def chat_message_def ai_response_def Let_def createMessage_relay
        sample_world_simps sample_world_startsWith sample_parse_frames sample_relay_simps
        number_frame_def MemStorage_def typing_frame_def error_frame_def map_values_def)

text \<open>
  Claim C10. Whatever \<open>role\<close> and \<open>attachments\<close> a \<open>chat_message\<close> frame carries, the
  message stored for it has role \<open>user\<close> and \<open>null\<close> attachments; its conversation and
  content are the frame's. (The two identifiers drawn for the frame are distinct, so the
  reply does not land on the same key.)
\<close>

theorem inbound_message_forced_role_user:
  assumes "JSON_parse w data = Inr (JObj fs)"
    and "get_prop fs ''type'' = JStr ''chat_message''"
    and "uuid1 w \<noteq> uuid2 w"
  shows "map_get (messages (storage (ws_on_message w data r))) (uuid1 w)
           = Some [(''conversationId'', get_prop fs ''conversationId''), (''role'', JStr ''user''),
                   (''content'', get_prop fs ''content''), (''attachments'', JNull),
                   (''id'', JStr (uuid1 w)), (''createdAt'', JDate (now1 w))]"
proof -
  have run: "ws_on_message w data r = chat_message w fs r"
    using assms(1,2) by (rule ws_on_message_chat)
  obtain called outcome where
    ai: "ai_response w (get_prop fs ''model'') (get_prop fs ''content'') = (called, outcome)"
    by (cases "ai_response w (get_prop fs ''model'') (get_prop fs ''content'')")
  show ?thesis
  proof (cases outcome)
    case (Inl e)
    with ai show ?thesis
      by (simp add: run chat_message_def Let_def createMessage_relay map_get_map_set)
  next
    case (Inr aiResponse)
    with ai assms(3) show ?thesis
      by (simp add: run chat_message_def Let_def createMessage_relay map_get_map_set)
  qed
qed

theorem inbound_message_witness:
  "get_prop claude_frame ''role'' = JStr ''assistant''
   \<and> get_prop claude_frame ''attachments'' = JArr [JNum 1]
   \<and> map_get (messages (storage (ws_on_message sample_world claude_frame_text sample_relay))) ''id-1''
     = Some [(''conversationId'', JStr ''c1''), (''role'', JStr ''user''),
             (''content'', JStr ''hello''), (''attachments'', JNull),
             (''id'', JStr ''id-1''), (''createdAt'', JDate 1000)]"
proof -
  have p: "JSON_parse sample_world claude_frame_text = Inr (JObj claude_frame)"
    by (simp add: sample_world_simps sample_parse_frames)
  have t: "get_prop claude_frame ''type'' = JStr ''chat_message''"
    by (simp add: claude_frame_def)
  have u: "uuid1 sample_world \<noteq> uuid2 sample_world"
    by (simp add: sample_world_simps)
  from inbound_message_forced_role_user [OF p t u, of sample_relay]
  show ?thesis
    by (simp add: sample_world_simps claude_frame_def)
qed

section \<open>Generation helpers\<close>

subsection \<open>When a prompt can be built\<close>

lemma js_String_builds: "(\<exists>t. js_String w v = Inr t) \<longleftrightarrow> convertible v"
  by (simp add: js_String_def)

lemma array_join_builds:
  "(\<exists>t. array_join w v sep = Inr t) \<longleftrightarrow> (\<exists>xs. v = JArr xs \<and> (\<forall>x \<in> set xs. convertible x))"
  by (cases v) (simp_all add: array_join_def)

lemma flashcards_prompt_builds:
  "(\<exists>p. flashcards_prompt w c content = Inr p) \<longleftrightarrow> convertible c \<and> convertible content"
  by (simp add: flashcards_prompt_def js_String_def)

lemma enhance_prompt_builds:
  "(\<exists>p. enhance_prompt w title content = Inr p) \<longleftrightarrow> convertible title \<and> convertible content"
  by (simp add: enhance_prompt_def js_String_def)

lemma quiz_prompt_builds:
  "(\<exists>p. quiz_prompt w difficulty subject n q = Inr p) \<longleftrightarrow>
     convertible difficulty \<and> convertible subject \<and> convertible n
     \<and> (\<exists>xs. q = JArr xs \<and> (\<forall>x \<in> set xs. convertible x))"
proof -
  have "(\<exists>p. quiz_prompt w difficulty subject n q = Inr p) \<longleftrightarrow>
          convertible difficulty \<and> convertible subject \<and> convertible n
          \<and> (\<exists>t. array_join w q '', '' = Inr t)"
    by (auto simp: quiz_prompt_def js_String_def split: sum.splits)
  then show ?thesis
    by (simp add: array_join_builds)
qed


text \<open>
  A value the conversion rejects fails the request before the provider is asked: the
  response is the same whatever the provider would have replied.
\<close>

lemma flashcards_unconvertible:
  assumes "truthy (get_prop fs ''content'')"
    and "\<not> convertible (get_prop fs ''content'') \<or> \<not> convertible (get_prop fs ''count'')"
  shows "post_flashcards_generate w (JObj fs)
           = (500, JObj [(''message'', JStr ''Failed to generate flashcards'')])"
proof -
  have "convertible (default_to (get_prop fs ''count'') (JNum 5))
          \<longleftrightarrow> convertible (get_prop fs ''count'')"
    by (simp add: default_to_def)
  with assms(2) have "\<not> (\<exists>p. flashcards_prompt w (default_to (get_prop fs ''count'') (JNum 5))
                               (get_prop fs ''content'') = Inr p)"
    by (auto simp: flashcards_prompt_builds)
  then obtain e where "flashcards_prompt w (default_to (get_prop fs ''count'') (JNum 5))
                               (get_prop fs ''content'') = Inl e"
    by (cases "flashcards_prompt w (default_to (get_prop fs ''count'') (JNum 5))
                               (get_prop fs ''content'')") auto
  with assms(1) show ?thesis
    by (simp add: post_flashcards_generate_def message_body_def)
qed

lemma enhance_unconvertible:
  assumes "getNote i s = Some note'"
    and "\<not> convertible (get_prop note' ''title'') \<or> \<not> convertible (get_prop note' ''content'')"
  shows "post_note_enhance w i s = (s, (500, JObj [(''message'', JStr ''Failed to enhance note'')]))"
proof -
  from assms(2) have "\<not> (\<exists>p. enhance_prompt w (get_prop note' ''title'')
                               (get_prop note' ''content'') = Inr p)"
    by (auto simp: enhance_prompt_builds)
  then obtain e where "enhance_prompt w (get_prop note' ''title'') (get_prop note' ''content'')
                         = Inl e"
    by (cases "enhance_prompt w (get_prop note' ''title'') (get_prop note' ''content'')") auto
  with assms(1) show ?thesis
    by (simp add: post_note_enhance_def message_body_def)
qed

lemma quiz_types_not_array:
  assumes "truthy (get_prop fs ''subject'')"
    and "get_prop fs ''questionTypes'' \<noteq> Undefined"
    and "\<forall>xs. get_prop fs ''questionTypes'' \<noteq> JArr xs"
  shows "post_quizzes_generate w (JObj fs) s
           = (s, (500, JObj [(''message'', JStr ''Failed to generate quiz'')]))"
proof -
  from assms(2) have "default_to (get_prop fs ''questionTypes'') (JArr [JStr ''multiple-choice''])
                        = get_prop fs ''questionTypes''"
    by (simp add: default_to_def)
  with assms(3) have "\<not> (\<exists>p. quiz_prompt w (get_prop fs ''difficulty'') (get_prop fs ''subject'')
                        (default_to (get_prop fs ''questionCount'') (JNum 5))
                        (default_to (get_prop fs ''questionTypes'') (JArr [JStr ''multiple-choice'']))
                      = Inr p)"
    by (simp add: quiz_prompt_builds)
  then obtain e where "quiz_prompt w (get_prop fs ''difficulty'') (get_prop fs ''subject'')
                        (default_to (get_prop fs ''questionCount'') (JNum 5))
                        (default_to (get_prop fs ''questionTypes'') (JArr [JStr ''multiple-choice'']))
                      = Inl e"
    by (cases "quiz_prompt w (get_prop fs ''difficulty'') (get_prop fs ''subject'')
                        (default_to (get_prop fs ''questionCount'') (JNum 5))
                        (default_to (get_prop fs ''questionTypes'') (JArr [JStr ''multiple-choice'']))")
       auto
  with assms(1) show ?thesis
    by (simp add: post_quizzes_generate_def message_body_def)
qed

text \<open>
  Only an object body reaches the provider: of any other value the required property is
  \<open>undefined\<close>, or reading it throws.
\<close>

lemma truthy_member_object:
  assumes "js_member body k = Inr v" and "truthy v" and "k \<noteq> ''length''"
  shows "\<exists>fs. body = JObj fs \<and> get_prop fs k = v"
  using assms by (cases body) (auto simp: js_member_def)

subsection \<open>The three handlers on an empty and on a malformed reply\<close>










section \<open>Video generation\<close>

lemma video_key_kept:
  assumes "store_step s s'" and "map_get (videoGenerations s) k \<noteq> None"
  shows "map_get (videoGenerations s') k \<noteq> None"
  using assms
proof (induction rule: store_step.induct)
  case (step_updateVideoGeneration i upd s s' r)
  then show ?case
    by (auto simp: updateVideoGeneration_def Let_def map_get_map_set split: option.splits)
next
  case (step_createVideoGeneration s uuid now ins)
  then show ?case
    by (simp add: createVideoGeneration_def Let_def map_get_map_set)
qed (auto simp: createUser_def createConversation_def updateConversation_def
       deleteConversation_def createMessage_def createFlashcardSet_def
       updateFlashcardSet_def deleteFlashcardSet_def createFlashcard_def
       updateFlashcard_def deleteFlashcard_def createNote_def updateNote_def deleteNote_def
       createQuiz_def deleteQuiz_def createQuizAttempt_def Let_def split: option.splits)

lemma video_key_kept_later:
  "store_step\<^sup>*\<^sup>* s s' \<Longrightarrow> map_get (videoGenerations s) k \<noteq> None
     \<Longrightarrow> map_get (videoGenerations s') k \<noteq> None"
proof (induction rule: rtranclp_induct)
  case base
  then show ?case .
next
  case (step y z)
  then show ?case using video_key_kept by blast
qed

lemma video_timer_completes:
  assumes "get_prop video ''id'' = JStr vid" and "map_get (videoGenerations s) vid \<noteq> None"
  shows "\<exists>done. get_video_generation vid (video_timer_fires now video s) = (200, JObj done)
           \<and> get_prop done ''status'' = JStr ''completed''
           \<and> get_prop done ''videoUrl'' = JStr (''https://example.com/videos/'' @ vid @ ''.mp4'')
           \<and> get_prop done ''thumbnailUrl''
                = JStr (''https://example.com/thumbnails/'' @ vid @ ''.jpg'')
           \<and> get_prop done ''completedAt'' = JDate now"
proof -
  from assms(2) obtain existing where e: "map_get (videoGenerations s) vid = Some existing"
    by auto
  show ?thesis
    using assms(1) e
    by (simp add: video_timer_fires_def updateVideoGeneration_def Let_def
          get_video_generation_def getVideoGeneration_def map_get_map_set get_prop_spread)
qed

text \<open>
  Claim C9. A request that passes validation creates a record and answers with it:
  status \<open>pending\<close>, \<open>videoUrl\<close>, \<open>thumbnailUrl\<close> and \<open>completedAt\<close> all \<open>null\<close>. The
  request schedules one callback, holding that record. Whatever the store goes through in
  between (\<open>s2\<close> is any store reached from the one the request left), once the callback
  has run at \<open>now\<close> a fetch of the same identifier answers 200 with status
  \<open>completed\<close>, both URLs strings and \<open>completedAt\<close> the date \<open>now\<close>.
\<close>

theorem video_generation_pending_then_completed:
  assumes "zod_parse w (spread (own_props body) [(''userId'', JStr ''default-user'')]) = Inr data'"
    and "post_video_generations w body s = (s1, response, scheduled)"
    and "store_step\<^sup>*\<^sup>* s1 s2"
  shows "\<exists>video done.
           response = (200, JObj video) \<and> scheduled = [video]
         \<and> getVideoGeneration (uuid1 w) s1 = Some video
         \<and> get_prop video ''id'' = JStr (uuid1 w)
         \<and> get_prop video ''status'' = JStr ''pending''
         \<and> get_prop video ''videoUrl'' = JNull
         \<and> get_prop video ''thumbnailUrl'' = JNull
         \<and> get_prop video ''completedAt'' = JNull
         \<and> get_video_generation (uuid1 w) (video_timer_fires now video s2) = (200, JObj done)
         \<and> get_prop done ''status'' = JStr ''completed''
         \<and> get_prop done ''videoUrl''
              = JStr (''https://example.com/videos/'' @ uuid1 w @ ''.mp4'')
         \<and> get_prop done ''thumbnailUrl''
              = JStr (''https://example.com/thumbnails/'' @ uuid1 w @ ''.jpg'')
         \<and> get_prop done ''completedAt'' = JDate now"
proof -
  let ?video = "spread data'
            [(''id'', JStr (uuid1 w)), (''status'', JStr ''pending''), (''videoUrl'', JNull),
             (''thumbnailUrl'', JNull), (''completedAt'', JNull), (''createdAt'', JDate (now1 w))]"
  from assms(1,2) have
    r: "response = (200, JObj ?video)" and t: "scheduled = [?video]"
    and s1: "s1 = s\<lparr>videoGenerations := map_set (uuid1 w) ?video (videoGenerations s)\<rparr>"
    by (auto simp: post_video_generations_def createVideoGeneration_def Let_def
          DEFAULT_USER_ID_def)
  have stored: "getVideoGeneration (uuid1 w) s1 = Some ?video"
    by (simp add: s1 getVideoGeneration_def map_get_map_set)
  then have "map_get (videoGenerations s1) (uuid1 w) \<noteq> None"
    by (simp add: getVideoGeneration_def)
  with assms(3) have present: "map_get (videoGenerations s2) (uuid1 w) \<noteq> None"
    by (rule video_key_kept_later)
  have fields: "get_prop ?video ''id'' = JStr (uuid1 w)"
    "get_prop ?video ''status'' = JStr ''pending''"
    "get_prop ?video ''videoUrl'' = JNull"
    "get_prop ?video ''thumbnailUrl'' = JNull"
    "get_prop ?video ''completedAt'' = JNull"
    by (simp_all add: get_prop_spread)
  from video_timer_completes [OF fields(1) present, of now]
  show ?thesis
    using r t stored fields by blast
qed

theorem video_generation_witness:
  "post_video_generations sample_world sample_video_body (MemStorage 0)
     = ((MemStorage 0)\<lparr>videoGenerations := [(''id-1'', sample_video)]\<rparr>,
        (200, JObj sample_video), [sample_video])
   \<and> get_prop sample_video ''status'' = JStr ''pending''
   \<and> get_prop sample_video ''videoUrl'' = JNull
   \<and> get_video_generation ''id-1''
        (video_timer_fires 6000 sample_video
           ((MemStorage 0)\<lparr>videoGenerations := [(''id-1'', sample_video)]\<rparr>))
     = (200, JObj
         [(''prompt'', JStr ''A cat surfing''), (''duration'', JNum 5),
          (''style'', JStr ''realistic''), (''aspectRatio'', JStr ''16:9''),
          (''userId'', JStr ''default-user''), (''id'', JStr ''id-1''),
          (''status'', JStr ''completed''),
          (''videoUrl'', JStr ''https://example.com/videos/id-1.mp4''),
          (''thumbnailUrl'', JStr ''https://example.com/thumbnails/id-1.jpg''),
          (''completedAt'', JDate 6000), (''createdAt'', JDate 1000)])"
proof -
  let ?s1 = "(MemStorage 0)\<lparr>videoGenerations := [(''id-1'', sample_video)]\<rparr>"
  have z: "zod_parse sample_world
             (spread (own_props sample_video_body) [(''userId'', JStr ''default-user'')])
           = Inr [(''prompt'', JStr ''A cat surfing''), (''duration'', JNum 5),
                  (''style'', JStr ''realistic''), (''aspectRatio'', JStr ''16:9''),
                  (''userId'', JStr ''default-user'')]"
    by (simp add: sample_world_def sample_video_body_def spread_def)
  have p: "post_video_generations sample_world sample_video_body (MemStorage 0)
             = (?s1, (200, JObj sample_video), [sample_video])"
    unfolding post_video_generations_def DEFAULT_USER_ID_def z
    by (simp add: createVideoGeneration_def Let_def spread_def sample_world_simps
          sample_video_def MemStorage_def)
  have f: "get_video_generation ''id-1'' (video_timer_fires 6000 sample_video ?s1)
     = (200, JObj
         [(''prompt'', JStr ''A cat surfing''), (''duration'', JNum 5),
          (''style'', JStr ''realistic''), (''aspectRatio'', JStr ''16:9''),
          (''userId'', JStr ''default-user''), (''id'', JStr ''id-1''),
          (''status'', JStr ''completed''),
          (''videoUrl'', JStr ''https://example.com/videos/id-1.mp4''),
          (''thumbnailUrl'', JStr ''https://example.com/thumbnails/id-1.jpg''),
          (''completedAt'', JDate 6000), (''createdAt'', JDate 1000)])"
    by (simp add: video_timer_fires_def sample_video_def updateVideoGeneration_def Let_def
          spread_def map_get_def get_video_generation_def getVideoGeneration_def)
  have l: "store_step\<^sup>*\<^sup>* ?s1 ?s1"
    by simp
  from video_generation_pending_then_completed [OF z p l, of 6000]
  have "get_prop sample_video ''status'' = JStr ''pending''
        \<and> get_prop sample_video ''videoUrl'' = JNull"
    by auto
  with p f show ?thesis by simp
qed

end
